(* ===== verification/Prelude.thy ===== *)
theory Prelude
  imports Complex_Main
begin

text \<open>
  Shared vocabulary of the XlsxWriter worksheet development: the types that name an
  XML attribute list, the collections of rewrite rules the component theories fill,
  and generic lemmas on lists and characters used by more than one component.
\<close>

section \<open>Types\<close>

text \<open>
  An attribute of an element is a (name, value) pair of strings; the writers hand
  an ordered list of them to the emitter, which keeps the order verbatim
  (\<open>xmlwriter._xml_start_tag(tag, attributes)\<close>).
\<close>

type_synonym attribute = "string \<times> string"

section \<open>Rule collections\<close>

named_theorems emit_simps
  "the event stream each writer appends to the output buffer"

section \<open>Generic lemmas\<close>

text \<open>A map over a string that leaves every character alone.\<close>

lemma concat_map_singleton_id:
  "(\<forall>c\<in>set s. f c = [c]) \<Longrightarrow> concat (map f s) = s"
  by (induction s) auto

text \<open>
  A strictly increasing list of positions: used for "appears in schema order and at
  most once".
\<close>

lemma sorted_wrt_less_distinct:
  "sorted_wrt (<) (xs :: nat list) \<Longrightarrow> distinct xs"
  by (induction xs) auto

text \<open>Reading a list up to a separator that does not occur before it.\<close>

lemma takeWhile_not_sep [simp]:
  "c \<notin> set xs \<Longrightarrow> takeWhile (\<lambda>x. x \<noteq> c) (xs @ ys) = xs @ takeWhile (\<lambda>x. x \<noteq> c) ys"
  by (induction xs) auto

text \<open>Characters with small codes survive the round trip through \<open>char_of\<close>.\<close>

lemma of_char_char_of_small [simp]:
  "n < 256 \<Longrightarrow> of_char (char_of n :: char) = (n :: nat)"
  by simp

end
