(* ===== verification/XML_Writer.thy ===== *)
theory XML_Writer
  imports Prelude
begin

text \<open>
  The markup emitter that \<open>Worksheet\<close> inherits from (\<open>xmlwriter.XMLwriter\<close>; the module
  is part of the repository but not under \<open>src/\<close>, so it is modelled from the
  specification, section 6). Its state is the output buffer \<open>fh\<close>, a record that the
  worksheet record extends, so the four emitter operations work on every extension of
  it. The buffer holds the stream of emitted events; \<open>render\<close> gives the bytes the real
  file receives, with attribute values escaped by \<open>escape_attributes\<close>.
  The theory also holds the checks the rest of the development states its results in:
  tag nesting (\<open>nest\<close>, \<open>balanced\<close>, \<open>well_formed_doc\<close>) and the names of the
  top-level elements under the root (\<open>tops\<close>, \<open>root_children\<close>).
\<close>

section \<open>Events and the emitter state\<close>

datatype xml_event =
    XmlDecl
  | StartTag string "attribute list"
  | EndTag string
  | EmptyTag string "attribute list"

record xmlwriter =
  fh :: "xml_event list"

definition xml_declaration :: "'a xmlwriter_scheme \<Rightarrow> 'a xmlwriter_scheme" where
  "xml_declaration w = w\<lparr>fh := fh w @ [XmlDecl]\<rparr>"

definition xml_start_tag :: "string \<Rightarrow> attribute list \<Rightarrow> 'a xmlwriter_scheme \<Rightarrow> 'a xmlwriter_scheme" where
  "xml_start_tag tag attributes w = w\<lparr>fh := fh w @ [StartTag tag attributes]\<rparr>"

definition xml_end_tag :: "string \<Rightarrow> 'a xmlwriter_scheme \<Rightarrow> 'a xmlwriter_scheme" where
  "xml_end_tag tag w = w\<lparr>fh := fh w @ [EndTag tag]\<rparr>"

definition xml_empty_tag :: "string \<Rightarrow> attribute list \<Rightarrow> 'a xmlwriter_scheme \<Rightarrow> 'a xmlwriter_scheme" where
  "xml_empty_tag tag attributes w = w\<lparr>fh := fh w @ [EmptyTag tag attributes]\<rparr>"

lemmas xml_emit_defs [emit_simps] =
  xml_declaration_def xml_start_tag_def xml_end_tag_def xml_empty_tag_def

section \<open>Escaping of attribute values\<close>

text \<open>
  \<open>_escape_attributes\<close>: a value without any of \<open>& < > "\<close> is returned as it is;
  otherwise the four characters are replaced by their entities, \<open>&\<close> first, by
  successive calls of Python's \<open>str.replace\<close>. \<open>py_replace_char c t s\<close> is
  \<open>s.replace(c, t)\<close> for a one-character needle \<open>c\<close>.
\<close>

definition py_replace_char :: "char \<Rightarrow> string \<Rightarrow> string \<Rightarrow> string" where
  "py_replace_char c t s = concat (map (\<lambda>x. if x = c then t else [x]) s)"

definition xml_special :: "char \<Rightarrow> bool" where
  "xml_special c \<longleftrightarrow> c = CHR ''&'' \<or> c = CHR ''<'' \<or> c = CHR ''>'' \<or> c = CHR 0x22"

definition escape_attributes :: "string \<Rightarrow> string" where
  "escape_attributes s =
     (if \<not> list_ex xml_special s then s
      else py_replace_char CHR ''>'' ''&gt;''
            (py_replace_char CHR ''<'' ''&lt;''
              (py_replace_char CHR 0x22 ''&quot;''
                (py_replace_char CHR ''&'' ''&amp;'' s))))"

text \<open>The reference escaper: one character at a time.\<close>

definition escape_char :: "char \<Rightarrow> string" where
  "escape_char c =
     (if c = CHR ''&'' then ''&amp;''
      else if c = CHR 0x22 then ''&quot;''
      else if c = CHR ''<'' then ''&lt;''
      else if c = CHR ''>'' then ''&gt;''
      else [c])"

text \<open>The decoder a consumer applies to an attribute value.\<close>

fun unescape :: "string \<Rightarrow> string" where
  "unescape [] = []"
| "unescape (c # s) =
     (if c = CHR ''&'' then
        (if take 4 s = ''amp;'' then CHR ''&'' # unescape (drop 4 s)
         else if take 5 s = ''quot;'' then CHR 0x22 # unescape (drop 5 s)
         else if take 3 s = ''lt;'' then CHR ''<'' # unescape (drop 3 s)
         else if take 3 s = ''gt;'' then CHR ''>'' # unescape (drop 3 s)
         else c # unescape s)
      else c # unescape s)"

section \<open>Rendering\<close>

fun render_attributes :: "attribute list \<Rightarrow> string" where
  "render_attributes [] = []"
| "render_attributes ((k, v) # as) =
     '' '' @ k @ ''='' @ [CHR 0x22] @ escape_attributes v @ [CHR 0x22] @ render_attributes as"

definition xml_decl_text :: string where
  "xml_decl_text =
     ''<?xml version='' @ [CHR 0x22] @ ''1.0'' @ [CHR 0x22] @ '' encoding='' @ [CHR 0x22] @
     ''UTF-8'' @ [CHR 0x22] @ '' standalone='' @ [CHR 0x22] @ ''yes'' @ [CHR 0x22] @ ''?>'' @
     [CHR 0x0A]"

fun render_event :: "xml_event \<Rightarrow> string" where
  "render_event XmlDecl = xml_decl_text"
| "render_event (StartTag t as) = ''<'' @ t @ render_attributes as @ ''>''"
| "render_event (EndTag t) = ''</'' @ t @ ''>''"
| "render_event (EmptyTag t as) = ''<'' @ t @ render_attributes as @ ''/>''"

definition render :: "xml_event list \<Rightarrow> string" where
  "render es = concat (map render_event es)"

section \<open>Nesting and top-level elements\<close>

text \<open>
  \<open>nest st es\<close> runs the tag stack over the events: a start tag pushes its name, an end
  tag must close the innermost open element, a declaration is allowed only in front
  of the document. \<open>None\<close> is a nesting error.
\<close>

fun nest :: "string list \<Rightarrow> xml_event list \<Rightarrow> string list option" where
  "nest st [] = Some st"
| "nest st (XmlDecl # es) = None"
| "nest st (StartTag t as # es) = nest (t # st) es"
| "nest st (EndTag t # es) =
     (case st of [] \<Rightarrow> None | u # st' \<Rightarrow> if u = t then nest st' es else None)"
| "nest st (EmptyTag t as # es) = nest st es"

definition balanced :: "xml_event list \<Rightarrow> bool" where
  "balanced es \<longleftrightarrow> nest [] es = Some []"

fun event_attributes :: "xml_event \<Rightarrow> attribute list" where
  "event_attributes (StartTag t as) = as"
| "event_attributes (EmptyTag t as) = as"
| "event_attributes _ = []"

definition attributes_distinct :: "xml_event list \<Rightarrow> bool" where
  "attributes_distinct es \<longleftrightarrow> list_all (\<lambda>e. distinct (map fst (event_attributes e))) es"

text \<open>
  A document: the declaration, one root element, nothing after it, every element
  properly closed and no attribute named twice in one element.
\<close>

fun well_formed_doc :: "xml_event list \<Rightarrow> bool" where
  "well_formed_doc (XmlDecl # StartTag r as # rest) =
     (rest \<noteq> [] \<and> last rest = EndTag r \<and> balanced (butlast rest) \<and>
      attributes_distinct (StartTag r as # rest))"
| "well_formed_doc _ = False"

text \<open>\<open>tops st es\<close>: names of the elements that start while the stack is empty.\<close>

fun tops :: "string list \<Rightarrow> xml_event list \<Rightarrow> string list" where
  "tops st [] = []"
| "tops st (XmlDecl # es) = tops st es"
| "tops st (StartTag t as # es) = (if st = [] then [t] else []) @ tops (t # st) es"
| "tops st (EndTag t # es) = tops (tl st) es"
| "tops st (EmptyTag t as # es) = (if st = [] then [t] else []) @ tops st es"

fun root_children :: "xml_event list \<Rightarrow> string list" where
  "root_children (XmlDecl # StartTag r as # rest) = tops [] (butlast rest)"
| "root_children _ = []"

fun root_attributes :: "xml_event list \<Rightarrow> attribute list" where
  "root_attributes (XmlDecl # StartTag r as # rest) = as"
| "root_attributes _ = []"

text \<open>
  One element, written by one section writer: a self-closing tag, or a start tag, a
  balanced body and the matching end tag.
\<close>

fun is_element :: "string \<Rightarrow> xml_event list \<Rightarrow> bool" where
  "is_element n [EmptyTag m as] = (m = n)"
| "is_element n (StartTag m as # rest) =
     (m = n \<and> rest \<noteq> [] \<and> last rest = EndTag n \<and> balanced (butlast rest))"
| "is_element n _ = False"


text \<open>The attribute lists of every element with a given name, in document order.\<close>

fun element_attributes :: "string \<Rightarrow> xml_event list \<Rightarrow> attribute list list" where
  "element_attributes n [] = []"
| "element_attributes n (StartTag t as # es) = (if t = n then [as] else []) @ element_attributes n es"
| "element_attributes n (EmptyTag t as # es) = (if t = n then [as] else []) @ element_attributes n es"
| "element_attributes n (_ # es) = element_attributes n es"

section \<open>Lemmas: the emitter state\<close>

text \<open>Two emitter states that differ at most in their buffers are equal when the buffers are.\<close>

lemma fh_update_eq_iff [simp]:
  "w\<lparr>fh := a\<rparr> = w\<lparr>fh := b\<rparr> \<longleftrightarrow> a = b"
  by (metis xmlwriter.select_convs(1) xmlwriter.surjective xmlwriter.update_convs(1))

section \<open>Lemmas: escaping\<close>

lemma py_replace_char_append [simp]:
  "py_replace_char c t (xs @ ys) = py_replace_char c t xs @ py_replace_char c t ys"
  by (simp add: py_replace_char_def)

lemma py_replace_char_concat_map:
  "py_replace_char c t (concat (map f s)) = concat (map (\<lambda>x. py_replace_char c t (f x)) s)"
  by (induction s) (auto simp: py_replace_char_def)

lemma escape_chain_char:
  "py_replace_char CHR ''>'' ''&gt;'' (py_replace_char CHR ''<'' ''&lt;''
     (py_replace_char CHR 0x22 ''&quot;'' (py_replace_char CHR ''&'' ''&amp;'' [x])))
   = escape_char x"
  by (simp add: py_replace_char_def escape_char_def)

lemma escape_char_plain:
  "\<not> xml_special c \<Longrightarrow> escape_char c = [c]"
  by (simp add: escape_char_def xml_special_def)

lemma escape_attributes_eq_map:
  "escape_attributes s = concat (map escape_char s)"
proof (cases "list_ex xml_special s")
  case True
  have "py_replace_char CHR ''>'' ''&gt;'' (py_replace_char CHR ''<'' ''&lt;''
     (py_replace_char CHR 0x22 ''&quot;'' (py_replace_char CHR ''&'' ''&amp;'' (concat (map (\<lambda>x. [x]) s)))))
     = concat (map escape_char s)"
    by (simp only: py_replace_char_concat_map escape_chain_char)
  with True show ?thesis by (simp add: escape_attributes_def)
next
  case False
  then have "\<forall>c\<in>set s. escape_char c = [c]"
    by (auto simp: list_ex_iff escape_char_plain)
  with False show ?thesis
    by (simp add: escape_attributes_def concat_map_singleton_id)
qed

lemma unescape_escape_char:
  "unescape (escape_char c @ r) = c # unescape r"
  by (simp add: escape_char_def)

text \<open>
  Escaping loses nothing: a consumer that decodes the entities gets back every
  attribute value the emitter was given.
\<close>

lemma unescape_escape_attributes:
  "unescape (escape_attributes s) = s"
proof -
  have "unescape (concat (map escape_char s)) = s"
    by (induction s) (simp_all add: unescape_escape_char)
  then show ?thesis by (simp add: escape_attributes_eq_map)
qed

lemma escape_char_safe:
  "set (escape_char c) \<inter> {CHR ''<'', CHR ''>'', CHR 0x22} = {}"
  by (simp add: escape_char_def)

text \<open>
  An escaped attribute value contains no \<open><\<close>, \<open>>\<close> or double quote, so it cannot
  end its attribute or start markup.
\<close>

lemma escape_attributes_safe:
  "set (escape_attributes s) \<inter> {CHR ''<'', CHR ''>'', CHR 0x22} = {}"
  using escape_char_safe by (auto simp: escape_attributes_eq_map)


section \<open>Lemmas: nesting, top-level elements, documents\<close>

lemma nest_append:
  "nest st (xs @ ys) = (case nest st xs of None \<Rightarrow> None | Some st' \<Rightarrow> nest st' ys)"
  by (induction st xs rule: nest.induct) (auto split: list.splits)

lemma tops_append:
  "nest st xs = Some st' \<Longrightarrow> tops st (xs @ ys) = tops st xs @ tops st' ys"
  by (induction st xs rule: nest.induct) (auto split: list.splits if_splits)

lemma nest_extend:
  "nest s0 xs = Some r \<Longrightarrow> nest (s0 @ st) xs = Some (r @ st)"
  by (induction s0 xs arbitrary: r rule: nest.induct) (auto split: list.splits if_splits)

lemma tops_below_open:
  "nest s0 xs = Some r \<Longrightarrow> tops (s0 @ x # st) xs = []"
  by (induction s0 xs arbitrary: r rule: nest.induct) (auto split: list.splits if_splits)

lemma is_element_nest:
  "is_element n evs \<Longrightarrow> nest st evs = Some st"
proof (induction n evs rule: is_element.induct)
  case (2 n m as rest)
  then obtain body where rest: "rest = body @ [EndTag n]" and m: "m = n"
    and b: "nest [] body = Some []"
    by (cases rest rule: rev_cases) (auto simp: balanced_def)
  from nest_extend [OF b, of "n # st"] have "nest (n # st) body = Some (n # st)" by simp
  then show ?case by (simp add: rest m nest_append)
qed auto

lemma is_element_tops:
  "is_element n evs \<Longrightarrow> tops st evs = (if st = [] then [n] else [])"
proof (induction n evs rule: is_element.induct)
  case (2 n m as rest)
  then obtain body where rest: "rest = body @ [EndTag n]" and m: "m = n"
    and b: "nest [] body = Some []"
    by (cases rest rule: rev_cases) (auto simp: balanced_def)
  from nest_extend [OF b, of "n # st"] have nb: "nest (n # st) body = Some (n # st)" by simp
  from tops_below_open [OF b, of n st] have "tops (n # st) body = []" by simp
  then show ?case by (simp add: rest m tops_append [OF nb])
qed auto


lemma elements_nest_tops:
  "list_all (\<lambda>(n, e). is_element n e) els \<Longrightarrow>
     nest st (concat (map snd els)) = Some st \<and> tops [] (concat (map snd els)) = map fst els"
proof (induction els arbitrary: st)
  case (Cons el els)
  obtain n e where el: "el = (n, e)" by (cases el)
  with Cons.prems have e: "is_element n e" and rest: "list_all (\<lambda>(n, e). is_element n e) els"
    by simp_all
  have ne: "nest st e = Some st" and n0: "nest [] e = Some []"
    using is_element_nest [OF e] by simp_all
  from Cons.IH [OF rest] show ?case
    by (simp add: el nest_append ne tops_append [OF n0] is_element_tops [OF e])
qed simp

lemma render_append [simp]:
  "render (xs @ ys) = render xs @ render ys"
  by (simp add: render_def)

lemma render_Cons [simp]:
  "render (e # es) = render_event e @ render es"
  by (simp add: render_def)

lemma render_Nil [simp]:
  "render [] = []"
  by (simp add: render_def)

text \<open>A document whose root holds a sequence of elements.\<close>

lemma doc_of_elements:
  assumes "list_all (\<lambda>(n, e). is_element n e) els"
  shows "well_formed_doc (XmlDecl # StartTag r as # concat (map snd els) @ [EndTag r]) \<longleftrightarrow>
           attributes_distinct (StartTag r as # concat (map snd els))"
    and "root_children (XmlDecl # StartTag r as # concat (map snd els) @ [EndTag r]) = map fst els"
    and "root_attributes (XmlDecl # StartTag r as # concat (map snd els) @ [EndTag r]) = as"
proof -
  from elements_nest_tops [OF assms, of "[]"]
  have b: "balanced (concat (map snd els))" and t: "tops [] (concat (map snd els)) = map fst els"
    by (simp_all add: balanced_def)
  show "well_formed_doc (XmlDecl # StartTag r as # concat (map snd els) @ [EndTag r]) \<longleftrightarrow>
           attributes_distinct (StartTag r as # concat (map snd els))"
    using b by (simp add: attributes_distinct_def)
  show "root_children (XmlDecl # StartTag r as # concat (map snd els) @ [EndTag r]) = map fst els"
    using t by simp
  show "root_attributes (XmlDecl # StartTag r as # concat (map snd els) @ [EndTag r]) = as"
    by simp
qed

end
