(* ===== verification/Worksheet.thy ===== *)
theory Worksheet
  imports XML_Writer
begin

text \<open>
  The worksheet state (\<open>src/xlsxwriter/worksheet.py\<close>, class \<open>Worksheet\<close>). The class
  extends \<open>XMLwriter\<close>, so its record extends the emitter record \<open>xmlwriter\<close>: every
  writer works on one value holding both the settings and the output buffer, as the
  Python methods work on \<open>self\<close>. The fields are the attributes \<open>__init__\<close> sets, in
  its order, with Python's types: integers (also the 0/1 flags) as \<open>int\<close>, \<open>None\<close>
  defaults as \<open>option\<close>, strings as \<open>string\<close>, the margin floats as \<open>real\<close>.
  Attributes that hold objects of other modules (formats, charts, images, tables,
  comments, hyperlinks, validations, conditional formats, the size and format
  dictionaries) are typed with \<open>py_object\<close>, an object reference: a list of them is a
  \<open>py_object list\<close>, a dictionary a map \<open>py_object \<rightharpoonup> py_object\<close>. No code of this
  file reads their contents; the constructor sets them all empty.
\<close>

section \<open>Objects of other modules\<close>

datatype py_object = PyObject nat

section \<open>State\<close>

record worksheet = xmlwriter +
  name :: "string option"
  index :: "int option"
  activesheet :: "int option"
  firstsheet :: "int option"
  str_total :: "int option"
  str_unique :: "int option"
  str_table :: "py_object option"
  table_count :: "int option"
  date_1904 :: "int option"
  palette :: "py_object option"
  optimization :: int
  tempdir :: "string option"
  ext_sheets :: "string list"
  fileclosed :: int
  excel_version :: int
  xls_rowmax :: int
  xls_colmax :: int
  xls_strmax :: int
  dim_rowmin :: "int option"
  dim_rowmax :: "int option"
  dim_colmin :: "int option"
  dim_colmax :: "int option"
  colinfo :: "py_object list"
  selections :: "(string \<times> string \<times> string) list"
  hidden :: int
  active :: int
  tab_color :: int
  panes :: "int list"
  active_pane :: int
  selected :: int
  page_setup_changed :: int
  paper_size :: int
  orientation :: int
  print_options_changed :: int
  hcenter :: int
  vcenter :: int
  print_gridlines :: int
  screen_gridlines :: int
  print_headers :: int
  header_footer_changed :: int
  header :: string
  footer :: string
  margin_left :: real
  margin_right :: real
  margin_top :: real
  margin_bottom :: real
  margin_header :: real
  margin_footer :: real
  repeat_rows :: string
  repeat_cols :: string
  print_area :: string
  page_order :: int
  black_white :: int
  draft_quality :: int
  print_comments :: int
  page_start :: int
  fit_page :: int
  fit_width :: int
  fit_height :: int
  hbreaks :: "int list"
  vbreaks :: "int list"
  protect :: int
  password :: "string option"
  set_cols :: "py_object \<rightharpoonup> py_object"
  set_rows :: "py_object \<rightharpoonup> py_object"
  zoom :: int
  zoom_scale_normal :: int
  print_scale :: int
  right_to_left :: int
  show_zeros :: int
  leading_zeros :: int
  outline_row_level :: int
  outline_col_level :: int
  outline_style :: int
  outline_below :: int
  outline_right :: int
  outline_on :: int
  outline_changed :: int
  default_row_height :: int
  default_row_zeroed :: int
  names :: "py_object \<rightharpoonup> py_object"
  write_match :: "py_object list"
  table :: "py_object \<rightharpoonup> py_object"
  merge :: "int list list"
  has_vml :: int
  has_comments :: int
  comments :: "py_object \<rightharpoonup> py_object"
  comments_array :: "py_object list"
  comments_author :: string
  comments_visible :: int
  vml_shape_id :: int
  buttons_array :: "py_object list"
  autofilter :: string
  filter_on :: int
  filter_range :: "int list"
  filter_cols :: "py_object \<rightharpoonup> py_object"
  col_sizes :: "py_object \<rightharpoonup> py_object"
  row_sizes :: "py_object \<rightharpoonup> py_object"
  col_formats :: "py_object \<rightharpoonup> py_object"
  col_size_changed :: int
  row_size_changed :: int
  last_shape_id :: int
  rel_count :: int
  hlink_count :: int
  hlink_refs :: "py_object list"
  external_hyper_links :: "py_object list"
  external_drawing_links :: "py_object list"
  external_comment_links :: "py_object list"
  external_vml_links :: "py_object list"
  external_table_links :: "py_object list"
  drawing_links :: "py_object list"
  charts :: "py_object list"
  images :: "py_object list"
  tables :: "py_object list"
  sparklines :: "py_object list"
  shapes :: "py_object list"
  shape_hash :: "py_object \<rightharpoonup> py_object"
  drawing :: int
  rstring :: string
  previous_row :: int
  validations :: "py_object list"
  cond_formats :: "py_object \<rightharpoonup> py_object"
  dxf_priority :: int

section \<open>Constructor\<close>

text \<open>
  \<open>Worksheet.__init__\<close>; the inherited \<open>XMLwriter.__init__\<close> leaves the output empty.
\<close>

definition worksheet_init :: worksheet where
  "worksheet_init = \<lparr>
     fh = [],
     name = None, index = None, activesheet = None, firstsheet = None,
     str_total = None, str_unique = None, str_table = None, table_count = None, date_1904 = None, palette = None,
     optimization = 0, tempdir = None,
     ext_sheets = [], fileclosed = 0, excel_version = 2007,
     xls_rowmax = 1048576, xls_colmax = 16384, xls_strmax = 32767,
     dim_rowmin = None, dim_rowmax = None, dim_colmin = None, dim_colmax = None,
     colinfo = [],
     selections = [], hidden = 0, active = 0, tab_color = 0,
     panes = [], active_pane = 3, selected = 0,
     page_setup_changed = 0, paper_size = 0, orientation = 1,
     print_options_changed = 0, hcenter = 0, vcenter = 0, print_gridlines = 0,
     screen_gridlines = 1, print_headers = 0,
     header_footer_changed = 0, header = [], footer = [],
     margin_left = 0.7, margin_right = 0.7, margin_top = 0.75, margin_bottom = 0.75,
     margin_header = 0.3, margin_footer = 0.3,
     repeat_rows = [], repeat_cols = [], print_area = [],
     page_order = 0, black_white = 0, draft_quality = 0, print_comments = 0, page_start = 0,
     fit_page = 0, fit_width = 0, fit_height = 0,
     hbreaks = [], vbreaks = [],
     protect = 0, password = None,
     set_cols = Map.empty, set_rows = Map.empty,
     zoom = 100, zoom_scale_normal = 1, print_scale = 100, right_to_left = 0,
     show_zeros = 1, leading_zeros = 0,
     outline_row_level = 0, outline_col_level = 0, outline_style = 0, outline_below = 1,
     outline_right = 1, outline_on = 1, outline_changed = 0,
     default_row_height = 15, default_row_zeroed = 0,
     names = Map.empty, write_match = [], table = Map.empty,
     merge = [],
     has_vml = 0, has_comments = 0, comments = Map.empty, comments_array = [],
     comments_author = [], comments_visible = 0,
     vml_shape_id = 1024, buttons_array = [],
     autofilter = [], filter_on = 0, filter_range = [], filter_cols = Map.empty,
     col_sizes = Map.empty, row_sizes = Map.empty, col_formats = Map.empty,
     col_size_changed = 0, row_size_changed = 0,
     last_shape_id = 1, rel_count = 0, hlink_count = 0, hlink_refs = [],
     external_hyper_links = [], external_drawing_links = [], external_comment_links = [],
     external_vml_links = [], external_table_links = [], drawing_links = [],
     charts = [], images = [], tables = [], sparklines = [], shapes = [],
     shape_hash = Map.empty,
     drawing = 0, rstring = [], previous_row = 0,
     validations = [], cond_formats = Map.empty, dxf_priority = 1\<rparr>"

section \<open>Public API\<close>

text \<open>\<open>select()\<close>: the sheet's tab is highlighted; a selected sheet cannot be hidden.\<close>

definition select :: "worksheet \<Rightarrow> worksheet" where
  "select ws = ws\<lparr>selected := 1, hidden := 0\<rparr>"

section \<open>Properties of the public API\<close>

text \<open>
  C5: after \<open>select()\<close> the sheet is selected and not hidden, whatever it was before,
  and no other attribute changes.
\<close>

theorem select_selected_not_hidden:
  "selected (select ws) = 1 \<and> hidden (select ws) = 0 \<and>
   (select ws)\<lparr>selected := selected ws, hidden := hidden ws\<rparr> = ws"
  by (simp add: select_def)

end
