(* ===== verification/Writers.thy ===== *)
theory Writers
  imports Worksheet
begin

text \<open>
  The section writers of \<open>worksheet.py\<close> (the "XML methods", lines 241--330). Each
  is a method on the worksheet that appends its element to the output buffer through
  the emitter; \<open>_write_worksheet\<close> also resets \<open>excel_version\<close> before it reads it.
  The equations \<open>*_emits\<close> give what each writer appends and show that it changes
  nothing else (collection \<open>emit_simps\<close>).
\<close>

section \<open>The root element\<close>

text \<open>
  The attribute list of \<open><worksheet>\<close> as a function of the version that
  \<open>_write_worksheet\<close> tests (lines 244--267): the main and relationships namespaces,
  and for Excel 2010 the markup-compatibility and x14ac namespaces with the
  \<open>mc:Ignorable\<close> hint.
\<close>

definition worksheet_attributes :: "int \<Rightarrow> attribute list" where
  "worksheet_attributes excel_version_value =
     (let schema = ''http://schemas.openxmlformats.org/'';
          xmlns = schema @ ''spreadsheetml/2006/main'';
          xmlns_r = schema @ ''officeDocument/2006/relationships'';
          ms_schema = ''http://schemas.microsoft.com/'';
          attributes = [(''xmlns'', xmlns), (''xmlns:r'', xmlns_r)]
      in if excel_version_value = 2010
         then attributes @
                [(''xmlns:mc'', schema @ ''markup-compatibility/2006''),
                 (''xmlns:x14ac'', ms_schema @ ''office/spreadsheetml/2009/9/ac''),
                 (''mc:Ignorable'', ''x14ac'')]
         else attributes)"

definition write_worksheet :: "worksheet \<Rightarrow> worksheet" where
  "write_worksheet ws =
     (let ws' = ws\<lparr>excel_version := 2007\<rparr>
      in xml_start_tag ''worksheet'' (worksheet_attributes (excel_version ws')) ws')"

section \<open>The child elements\<close>

definition write_dimension :: "worksheet \<Rightarrow> worksheet" where
  "write_dimension ws =
     (let ref = ''A1''; attributes = [(''ref'', ref)]
      in xml_empty_tag ''dimension'' attributes ws)"

definition write_sheet_view :: "worksheet \<Rightarrow> worksheet" where
  "write_sheet_view ws =
     (let tab_selected = ''1'';
          workbook_view_id = ''0'';
          attributes = [(''tabSelected'', tab_selected), (''workbookViewId'', workbook_view_id)]
      in xml_empty_tag ''sheetView'' attributes ws)"

definition write_sheet_views :: "worksheet \<Rightarrow> worksheet" where
  "write_sheet_views ws =
     (let ws1 = xml_start_tag ''sheetViews'' [] ws;
          ws2 = write_sheet_view ws1
      in xml_end_tag ''sheetViews'' ws2)"

definition write_sheet_format_pr :: "worksheet \<Rightarrow> worksheet" where
  "write_sheet_format_pr ws =
     (let default_row_height_value = ''15'';
          attributes = [(''defaultRowHeight'', default_row_height_value)]
      in xml_empty_tag ''sheetFormatPr'' attributes ws)"

definition write_sheet_data :: "worksheet \<Rightarrow> worksheet" where
  "write_sheet_data ws = xml_empty_tag ''sheetData'' [] ws"

definition write_page_margins :: "worksheet \<Rightarrow> worksheet" where
  "write_page_margins ws =
     (let left = ''0.7''; right = ''0.7''; top = ''0.75''; bottom = ''0.75'';
          header_value = ''0.3''; footer_value = ''0.3'';
          attributes =
            [(''left'', left), (''right'', right), (''top'', top), (''bottom'', bottom),
             (''header'', header_value), (''footer'', footer_value)]
      in xml_empty_tag ''pageMargins'' attributes ws)"

section \<open>The namespace selector of the specification\<close>

text \<open>
  Section 4.3: the base namespace pair always, and with the extended schema the
  extension declarations and an \<open>mc:Ignorable\<close> hint naming a declared prefix.
\<close>

definition base_attributes :: "attribute list" where
  "base_attributes =
     [(''xmlns'', ''http://schemas.openxmlformats.org/spreadsheetml/2006/main''),
      (''xmlns:r'', ''http://schemas.openxmlformats.org/officeDocument/2006/relationships'')]"

definition extension_attribute_names :: "string list" where
  "extension_attribute_names = [''xmlns:mc'', ''xmlns:x14ac'', ''mc:Ignorable'']"

definition has_extension :: "attribute list \<Rightarrow> bool" where
  "has_extension attrs \<longleftrightarrow> list_ex (\<lambda>(k, v). k \<in> set extension_attribute_names) attrs"

definition ignorable_declared :: "attribute list \<Rightarrow> bool" where
  "ignorable_declared attrs \<longleftrightarrow>
     list_all (\<lambda>v. list_ex (\<lambda>(k, _). k = ''xmlns:'' @ v) attrs \<and>
                   list_ex (\<lambda>(k, _). k = ''xmlns:mc'') attrs)
       (map snd (filter (\<lambda>(k, _). k = ''mc:Ignorable'') attrs))"

section \<open>What each writer appends\<close>

lemma write_worksheet_emits [emit_simps]:
  "write_worksheet ws =
     ws\<lparr>excel_version := 2007, fh := fh ws @ [StartTag ''worksheet'' (worksheet_attributes 2007)]\<rparr>"
  by (simp add: write_worksheet_def xml_start_tag_def)

lemma write_dimension_emits [emit_simps]:
  "write_dimension ws = ws\<lparr>fh := fh ws @ [EmptyTag ''dimension'' [(''ref'', ''A1'')]]\<rparr>"
  by (simp add: write_dimension_def xml_empty_tag_def)

lemma write_sheet_views_emits [emit_simps]:
  "write_sheet_views ws =
     ws\<lparr>fh := fh ws @ [StartTag ''sheetViews'' [],
        EmptyTag ''sheetView'' [(''tabSelected'', ''1''), (''workbookViewId'', ''0'')],
        EndTag ''sheetViews'']\<rparr>"
  by (simp add: write_sheet_views_def write_sheet_view_def xml_emit_defs)

lemma write_sheet_format_pr_emits [emit_simps]:
  "write_sheet_format_pr ws =
     ws\<lparr>fh := fh ws @ [EmptyTag ''sheetFormatPr'' [(''defaultRowHeight'', ''15'')]]\<rparr>"
  by (simp add: write_sheet_format_pr_def xml_empty_tag_def)

lemma write_sheet_data_emits [emit_simps]:
  "write_sheet_data ws = ws\<lparr>fh := fh ws @ [EmptyTag ''sheetData'' []]\<rparr>"
  by (simp add: write_sheet_data_def xml_empty_tag_def)

lemma write_page_margins_emits [emit_simps]:
  "write_page_margins ws =
     ws\<lparr>fh := fh ws @ [EmptyTag ''pageMargins''
        [(''left'', ''0.7''), (''right'', ''0.7''), (''top'', ''0.75''), (''bottom'', ''0.75''),
         (''header'', ''0.3''), (''footer'', ''0.3'')]]\<rparr>"
  by (simp add: write_page_margins_def xml_empty_tag_def)

section \<open>Properties of the root element\<close>

text \<open>
  C6: the root attributes start with the base namespace pair for every version, and
  carry an extension attribute exactly when the version tested is 2010.
\<close>

theorem worksheet_attributes_gating:
  "take 2 (worksheet_attributes v) = base_attributes \<and>
   (has_extension (worksheet_attributes v) \<longleftrightarrow> v = 2010)"
  by (simp add: worksheet_attributes_def base_attributes_def has_extension_def
      extension_attribute_names_def Let_def)

text \<open>
  C15: the 2010 root attributes carry an \<open>mc:Ignorable\<close> hint exactly for version 2010,
  and every prefix it names, and the \<open>mc\<close> prefix itself, is declared in the same
  element.
\<close>

theorem worksheet_ignorable_declared:
  "ignorable_declared (worksheet_attributes v) \<and>
   (list_ex (\<lambda>(k, _). k = ''mc:Ignorable'') (worksheet_attributes v) \<longleftrightarrow> v = 2010)"
  by (simp add: worksheet_attributes_def ignorable_declared_def Let_def)

end
