(* ===== verification/Assembler.thy ===== *)
theory Assembler
  imports Writers
begin

text \<open>
  The document assembler. \<open>assemble_xml_file\<close> is \<open>Worksheet._assemble_xml_file\<close>
  (lines 208--233): the declaration, the root start tag, the five core sections in
  their fixed order and the root end tag. The specification (sections 4.4 and 9)
  describes the assembler as a schema-ordered table of positions, each with an
  inclusion predicate and a writer; \<open>assemble_by_table\<close> is that design, and
  \<open>section_ok\<close> the contract each writer of the table promises: its predicate does
  not look at the output buffer, and it appends exactly one element of its own name,
  with no attribute named twice. \<open>ct_worksheet_order\<close> is the order the
  \<open>CT_Worksheet\<close> schema type fixes for the children of \<open><worksheet>\<close>
  (ECMA-376 Part 1, 18.3.1.99).
\<close>

section \<open>The code's assembler\<close>

definition assemble_xml_file :: "worksheet \<Rightarrow> worksheet" where
  "assemble_xml_file ws =
     (let ws1 = xml_declaration ws;
          ws2 = write_worksheet ws1;
          ws3 = write_dimension ws2;
          ws4 = write_sheet_views ws3;
          ws5 = write_sheet_format_pr ws4;
          ws6 = write_sheet_data ws5;
          ws7 = write_page_margins ws6
      in xml_end_tag ''worksheet'' ws7)"

text \<open>The document one call writes: what it appends to the buffer.\<close>

definition written_doc :: "worksheet \<Rightarrow> xml_event list" where
  "written_doc ws = drop (length (fh ws)) (fh (assemble_xml_file ws))"

section \<open>The table-driven design\<close>

type_synonym section_entry = "string \<times> (worksheet \<Rightarrow> bool) \<times> (worksheet \<Rightarrow> worksheet)"

fun run_sections :: "section_entry list \<Rightarrow> worksheet \<Rightarrow> worksheet" where
  "run_sections [] ws = ws"
| "run_sections ((n, p, w) # secs) ws = run_sections secs (if p ws then w ws else ws)"

definition assemble_by_table :: "section_entry list \<Rightarrow> worksheet \<Rightarrow> worksheet" where
  "assemble_by_table secs ws =
     xml_end_tag ''worksheet'' (run_sections secs (write_worksheet (xml_declaration ws)))"

text \<open>The core profile: every position is unconditional (section 4.5).\<close>

definition core_sections :: "section_entry list" where
  "core_sections =
     [(''dimension'', \<lambda>_. True, write_dimension),
      (''sheetViews'', \<lambda>_. True, write_sheet_views),
      (''sheetFormatPr'', \<lambda>_. True, write_sheet_format_pr),
      (''sheetData'', \<lambda>_. True, write_sheet_data),
      (''pageMargins'', \<lambda>_. True, write_page_margins)]"

definition included_sections :: "section_entry list \<Rightarrow> worksheet \<Rightarrow> string list" where
  "included_sections secs ws = map fst (filter (\<lambda>(n, p, w). p ws) secs)"

definition section_ok :: "section_entry \<Rightarrow> bool" where
  "section_ok sec =
     (case sec of (n, p, w) \<Rightarrow>
        (\<forall>ws x. p (ws\<lparr>fh := x\<rparr>) = p ws) \<and>
        (\<forall>ws. \<exists>evs. w ws = ws\<lparr>fh := fh ws @ evs\<rparr> \<and> is_element n evs \<and> attributes_distinct evs))"

section \<open>Schema order\<close>

definition ct_worksheet_order :: "string list" where
  "ct_worksheet_order =
     [''sheetPr'', ''dimension'', ''sheetViews'', ''sheetFormatPr'', ''cols'', ''sheetData'',
      ''sheetCalcPr'', ''sheetProtection'', ''protectedRanges'', ''scenarios'', ''autoFilter'',
      ''sortState'', ''dataConsolidate'', ''customSheetViews'', ''mergeCells'', ''phoneticPr'',
      ''conditionalFormatting'', ''dataValidations'', ''hyperlinks'', ''printOptions'',
      ''pageMargins'', ''pageSetup'', ''headerFooter'', ''rowBreaks'', ''colBreaks'',
      ''customProperties'', ''cellWatches'', ''ignoredErrors'', ''smartTags'', ''drawing'',
      ''legacyDrawing'', ''legacyDrawingHF'', ''picture'', ''oleObjects'', ''controls'',
      ''webPublishItems'', ''tableParts'', ''extLst'']"

fun position_of :: "string list \<Rightarrow> string \<Rightarrow> nat" where
  "position_of [] x = 0"
| "position_of (y # ys) x = (if y = x then 0 else Suc (position_of ys x))"

text \<open>Names of schema elements, in the schema's order, none twice.\<close>

definition schema_ordered :: "string list \<Rightarrow> bool" where
  "schema_ordered tags \<longleftrightarrow>
     list_all (\<lambda>n. n \<in> set ct_worksheet_order) tags \<and>
     sorted_wrt (<) (map (position_of ct_worksheet_order) tags)"

section \<open>Lemmas: the table-driven assembler\<close>

text \<open>
  \<open>run_sections_elements\<close>: running a table whose writers keep their contract appends
  one element per included position, in the table's order. \<open>assemble_by_table_document_aux\<close>
  turns this into a well-formed document whose root children are the included
  positions. The inclusion predicates are evaluated on the state after
  \<open>_write_worksheet\<close> has reset \<open>excel_version\<close>.
\<close>

lemma attributes_distinct_append [simp]:
  "attributes_distinct (xs @ ys) \<longleftrightarrow> attributes_distinct xs \<and> attributes_distinct ys"
  by (simp add: attributes_distinct_def)

lemma attributes_distinct_concat:
  "list_all (\<lambda>(n, e). attributes_distinct e) els \<Longrightarrow> attributes_distinct (concat (map snd els))"
  by (induction els) (auto simp: attributes_distinct_def)

lemma included_sections_fh:
  "list_all section_ok secs \<Longrightarrow> included_sections secs (ws\<lparr>fh := x\<rparr>) = included_sections secs ws"
proof (induction secs)
  case (Cons sec secs)
  obtain n p w where "sec = (n, p, w)" by (cases sec)
  with Cons show ?case by (simp add: included_sections_def section_ok_def)
qed (simp add: included_sections_def)

lemma run_sections_elements:
  assumes "list_all section_ok secs"
  shows "\<exists>els. run_sections secs ws = ws\<lparr>fh := fh ws @ concat (map snd els)\<rparr> \<and>
           list_all (\<lambda>(n, e). is_element n e \<and> attributes_distinct e) els \<and>
           map fst els = included_sections secs ws"
  using assms
proof (induction secs arbitrary: ws)
  case Nil
  show ?case by (rule exI [of _ "[]"]) (simp add: included_sections_def)
next
  case (Cons sec secs)
  obtain n p w where sec: "sec = (n, p, w)" by (cases sec)
  from Cons.prems sec have ok: "section_ok (n, p, w)" and rest: "list_all section_ok secs"
    by simp_all
  show ?case
  proof (cases "p ws")
    case True
    from ok have "\<forall>ws. \<exists>evs. w ws = ws\<lparr>fh := fh ws @ evs\<rparr> \<and> is_element n evs \<and>
        attributes_distinct evs"
      by (simp add: section_ok_def)
    then obtain evs where w: "w ws = ws\<lparr>fh := fh ws @ evs\<rparr>"
      and e: "is_element n evs" "attributes_distinct evs"
      by blast
    from Cons.IH [OF rest, of "w ws"] obtain els where
      r: "run_sections secs (w ws) = (w ws)\<lparr>fh := fh (w ws) @ concat (map snd els)\<rparr>"
      and els: "list_all (\<lambda>(n, e). is_element n e \<and> attributes_distinct e) els"
      and names: "map fst els = included_sections secs (w ws)"
      by blast
    have "included_sections secs (w ws) = included_sections secs ws"
      using included_sections_fh [OF rest] by (simp add: w)
    then show ?thesis
      using True r els names e
      by (intro exI [of _ "(n, evs) # els"]) (simp add: sec w included_sections_def)
  next
    case False
    from Cons.IH [OF rest, of ws] obtain els where
      "run_sections secs ws = ws\<lparr>fh := fh ws @ concat (map snd els)\<rparr>"
      "list_all (\<lambda>(n, e). is_element n e \<and> attributes_distinct e) els"
      "map fst els = included_sections secs ws"
      by blast
    then show ?thesis
      using False by (intro exI [of _ els]) (simp add: sec included_sections_def)
  qed
qed

lemma worksheet_attributes_distinct:
  "distinct (map fst (worksheet_attributes v))"
  by (simp add: worksheet_attributes_def Let_def)

lemma assemble_by_table_document_aux:
  assumes "list_all section_ok secs"
  shows "\<exists>doc. fh (assemble_by_table secs ws) = fh ws @ doc \<and> well_formed_doc doc \<and>
           root_children doc = included_sections secs (ws\<lparr>excel_version := 2007\<rparr>) \<and>
           root_attributes doc = worksheet_attributes 2007"
proof -
  let ?ws0 = "write_worksheet (xml_declaration ws)"
  have ws0: "?ws0 = ws\<lparr>excel_version := 2007,
      fh := fh ws @ [XmlDecl, StartTag ''worksheet'' (worksheet_attributes 2007)]\<rparr>"
    by (simp add: emit_simps)
  from run_sections_elements [OF assms, of ?ws0] obtain els where
    r: "run_sections secs ?ws0 = ?ws0\<lparr>fh := fh ?ws0 @ concat (map snd els)\<rparr>"
    and els: "list_all (\<lambda>(n, e). is_element n e \<and> attributes_distinct e) els"
    and names: "map fst els = included_sections secs ?ws0"
    by blast
  have inc: "included_sections secs ?ws0 = included_sections secs (ws\<lparr>excel_version := 2007\<rparr>)"
    using included_sections_fh [OF assms, where ws = "ws\<lparr>excel_version := 2007\<rparr>"] by (simp add: ws0)
  have el: "list_all (\<lambda>(n, e). is_element n e) els"
    and ad: "list_all (\<lambda>(n, e). attributes_distinct e) els"
    using els by (auto simp: list_all_iff)
  let ?doc = "XmlDecl # StartTag ''worksheet'' (worksheet_attributes 2007) #
              concat (map snd els) @ [EndTag ''worksheet'']"
  have "fh (assemble_by_table secs ws) = fh ws @ ?doc"
    by (simp only: assemble_by_table_def r) (simp add: ws0 xml_end_tag_def)
  moreover have "attributes_distinct
      (StartTag ''worksheet'' (worksheet_attributes 2007) # concat (map snd els))"
    using attributes_distinct_concat [OF ad] worksheet_attributes_distinct
    by (simp add: attributes_distinct_def)
  then have "well_formed_doc ?doc"
    using doc_of_elements(1) [OF el] by blast
  moreover have "root_children ?doc = included_sections secs (ws\<lparr>excel_version := 2007\<rparr>)"
    using doc_of_elements(2) [OF el] names inc by simp
  moreover have "root_attributes ?doc = worksheet_attributes 2007"
    by simp
  ultimately show ?thesis by blast
qed

lemma section_ok_const:
  assumes "\<And>ws. w ws = ws\<lparr>fh := fh ws @ evs\<rparr>"
    and "is_element n evs" and "attributes_distinct evs"
  shows "section_ok (n, \<lambda>_. True, w)"
  using assms unfolding section_ok_def by blast

lemma core_sections_ok:
  "list_all section_ok core_sections"
proof -
  have "section_ok (''dimension'', \<lambda>_. True, write_dimension)"
    by (rule section_ok_const [OF write_dimension_emits])
       (simp_all add: balanced_def attributes_distinct_def)
  moreover have "section_ok (''sheetViews'', \<lambda>_. True, write_sheet_views)"
    by (rule section_ok_const [OF write_sheet_views_emits])
       (simp_all add: balanced_def attributes_distinct_def)
  moreover have "section_ok (''sheetFormatPr'', \<lambda>_. True, write_sheet_format_pr)"
    by (rule section_ok_const [OF write_sheet_format_pr_emits])
       (simp_all add: balanced_def attributes_distinct_def)
  moreover have "section_ok (''sheetData'', \<lambda>_. True, write_sheet_data)"
    by (rule section_ok_const [OF write_sheet_data_emits])
       (simp_all add: balanced_def attributes_distinct_def)
  moreover have "section_ok (''pageMargins'', \<lambda>_. True, write_page_margins)"
    by (rule section_ok_const [OF write_page_margins_emits])
       (simp_all add: balanced_def attributes_distinct_def)
  ultimately show ?thesis by (simp add: core_sections_def)
qed

lemma assemble_xml_file_by_table:
  "assemble_xml_file = assemble_by_table core_sections"
  by (rule ext) (simp add: assemble_xml_file_def assemble_by_table_def core_sections_def)


lemma written_doc_append:
  "fh (assemble_xml_file ws) = fh ws @ written_doc ws"
  by (simp add: written_doc_def assemble_xml_file_def emit_simps)

section \<open>Lemmas: schema order\<close>

lemma schema_ordered_filter:
  "schema_ordered (map fst secs) \<Longrightarrow> schema_ordered (included_sections secs ws)"
  by (auto simp: schema_ordered_def included_sections_def list_all_iff sorted_wrt_map
      intro: sorted_wrt_filter)

lemma schema_ordered_distinct:
  "schema_ordered tags \<Longrightarrow> distinct tags"
proof -
  assume "schema_ordered tags"
  then have "sorted_wrt (<) (map (position_of ct_worksheet_order) tags)"
    by (simp add: schema_ordered_def)
  then have "distinct (map (position_of ct_worksheet_order) tags)"
    by (rule sorted_wrt_less_distinct)
  then show "distinct tags" by (simp add: distinct_map)
qed

section \<open>Lemmas: the document the code writes\<close>

lemma written_doc_events:
  "written_doc ws =
     [XmlDecl, StartTag ''worksheet'' (worksheet_attributes 2007),
      EmptyTag ''dimension'' [(''ref'', ''A1'')],
      StartTag ''sheetViews'' [],
      EmptyTag ''sheetView'' [(''tabSelected'', ''1''), (''workbookViewId'', ''0'')],
      EndTag ''sheetViews'',
      EmptyTag ''sheetFormatPr'' [(''defaultRowHeight'', ''15'')],
      EmptyTag ''sheetData'' [],
      EmptyTag ''pageMargins''
        [(''left'', ''0.7''), (''right'', ''0.7''), (''top'', ''0.75''), (''bottom'', ''0.75''),
         (''header'', ''0.3''), (''footer'', ''0.3'')],
      EndTag ''worksheet'']"
  by (simp add: written_doc_def assemble_xml_file_def emit_simps)

section \<open>Properties of the assembler\<close>

text \<open>
  C3: the code's fixed call sequence is the table-driven assembler of the
  specification run on the core table, and every writer of that table keeps the
  section-writer contract.
\<close>

theorem assemble_refines_table:
  "list_all section_ok core_sections \<and> assemble_xml_file = assemble_by_table core_sections"
  using core_sections_ok
  by (simp add: fun_eq_iff assemble_xml_file_def assemble_by_table_def core_sections_def)

text \<open>
  C4: for any table whose writers keep the contract, the table-driven assembler appends
  one well-formed document whose root carries the base attributes and whose top-level
  children are exactly the included positions, in the table's order.
\<close>

theorem table_assembler_document:
  assumes "list_all section_ok secs"
  shows "\<exists>doc. fh (assemble_by_table secs ws) = fh ws @ doc \<and> well_formed_doc doc \<and>
           root_children doc = included_sections secs (ws\<lparr>excel_version := 2007\<rparr>) \<and>
           root_attributes doc = worksheet_attributes 2007"
  using assemble_by_table_document_aux [OF assms] .

theorem table_assembler_document_witness:
  "list_all section_ok core_sections \<and>
   (\<exists>doc. fh (assemble_by_table core_sections worksheet_init) = fh worksheet_init @ doc \<and>
      well_formed_doc doc \<and>
      root_children doc =
        included_sections core_sections (worksheet_init\<lparr>excel_version := 2007\<rparr>) \<and>
      root_attributes doc = worksheet_attributes 2007)"
  using core_sections_ok table_assembler_document [OF core_sections_ok, of worksheet_init]
  by simp

end
