(* ===== verification/Cell_Ref.thy ===== *)
theory Cell_Ref
  imports Prelude
begin

text \<open>
  A1-style cell references (\<open>xlsxwriter.utility\<close>: \<open>xl_col_to_name\<close>,
  \<open>xl_rowcol_to_cell\<close>, \<open>xl_cell_to_rowcol\<close>; not under \<open>src/\<close>, modelled from the
  specification, section 4.2, which asks for "standard column-letter/row-number
  notation"). Columns are written in bijective base 26 (A = 0, Z = 25, AA = 26), rows
  one-based in decimal. The decoders are the inverse a consumer applies.
\<close>

section \<open>Encoders\<close>

text \<open>
  The column loop of \<open>xl_col_to_name\<close>: while \<open>col_num\<close> is not zero, take the
  remainder modulo 26 in \<open>1..26\<close>, prepend its letter and continue with
  \<open>(col_num - 1) div 26\<close>.
\<close>

fun col_name_loop :: "nat \<Rightarrow> string \<Rightarrow> string" where
  "col_name_loop 0 col_str = col_str"
| "col_name_loop (Suc m) col_str =
     (let col_num = Suc m;
          remainder = (if col_num mod 26 = 0 then 26 else col_num mod 26);
          col_letter = char_of (65 + remainder - 1)
      in col_name_loop ((col_num - 1) div 26) (col_letter # col_str))"


definition xl_col_to_name :: "nat \<Rightarrow> string" where
  "xl_col_to_name col_num = col_name_loop (col_num + 1) []"

text \<open>Python's \<open>str(n)\<close> for a non-negative integer.\<close>

fun nat_to_string :: "nat \<Rightarrow> string" where
  "nat_to_string n =
     (if n < 10 then [char_of (48 + n)]
      else nat_to_string (n div 10) @ [char_of (48 + n mod 10)])"

declare nat_to_string.simps [simp del]

definition xl_rowcol_to_cell :: "nat \<Rightarrow> nat \<Rightarrow> string" where
  "xl_rowcol_to_cell row col = xl_col_to_name col @ nat_to_string (row + 1)"

definition xl_range :: "nat \<Rightarrow> nat \<Rightarrow> nat \<Rightarrow> nat \<Rightarrow> string" where
  "xl_range first_row first_col last_row last_col =
     xl_rowcol_to_cell first_row first_col @ '':'' @ xl_rowcol_to_cell last_row last_col"

section \<open>Decoders\<close>

definition is_upper :: "char \<Rightarrow> bool" where
  "is_upper c \<longleftrightarrow> 65 \<le> (of_char c :: nat) \<and> (of_char c :: nat) \<le> 90"

definition is_digit :: "char \<Rightarrow> bool" where
  "is_digit c \<longleftrightarrow> 48 \<le> (of_char c :: nat) \<and> (of_char c :: nat) \<le> 57"

definition col_name_value :: "string \<Rightarrow> nat" where
  "col_name_value s = foldl (\<lambda>acc c. acc * 26 + (of_char c - 64)) 0 s"

definition xl_name_to_col :: "string \<Rightarrow> nat option" where
  "xl_name_to_col s = (if s \<noteq> [] \<and> list_all is_upper s then Some (col_name_value s - 1) else None)"

definition digits_value :: "string \<Rightarrow> nat" where
  "digits_value s = foldl (\<lambda>acc c. acc * 10 + (of_char c - 48)) 0 s"

definition string_to_nat :: "string \<Rightarrow> nat option" where
  "string_to_nat s = (if s \<noteq> [] \<and> list_all is_digit s then Some (digits_value s) else None)"

definition xl_cell_to_rowcol :: "string \<Rightarrow> (nat \<times> nat) option" where
  "xl_cell_to_rowcol cell =
     (let col_str = takeWhile is_upper cell; row_str = dropWhile is_upper cell
      in case (xl_name_to_col col_str, string_to_nat row_str) of
           (Some col, Some row) \<Rightarrow> if 0 < row then Some (row - 1, col) else None
         | _ \<Rightarrow> None)"

text \<open>A range \<open>TopLeft:BottomRight\<close> split at its colon.\<close>

definition xl_range_to_rowcols :: "string \<Rightarrow> ((nat \<times> nat) \<times> (nat \<times> nat)) option" where
  "xl_range_to_rowcols s =
     (let first_cell = takeWhile (\<lambda>c. c \<noteq> CHR '':'') s;
          rest = dropWhile (\<lambda>c. c \<noteq> CHR '':'') s
      in case rest of
           [] \<Rightarrow> None
         | _ # last_cell \<Rightarrow>
             (case (xl_cell_to_rowcol first_cell, xl_cell_to_rowcol last_cell) of
                (Some top_left, Some bottom_right) \<Rightarrow> Some (top_left, bottom_right)
              | _ \<Rightarrow> None))"

section \<open>Lemmas: the column loop\<close>

text \<open>
  \<open>col_name_loop_pos\<close> is the loop's equation for a numeral argument, used to
  evaluate concrete references by \<open>simp\<close>; \<open>col_name_loop_Suc\<close> is the step the
  proofs use: the last letter is the remainder, the prefix is the name of the
  quotient.
\<close>

lemma col_name_loop_pos:
  "0 < n \<Longrightarrow> col_name_loop n acc =
     col_name_loop ((n - 1) div 26) (char_of (65 + (if n mod 26 = 0 then 26 else n mod 26) - 1) # acc)"
  by (cases n) (simp_all add: Let_def)

lemma col_letter_Suc:
  "65 + (if Suc m mod 26 = 0 then 26 else Suc m mod 26) - 1 = 65 + m mod (26::nat)"
  by (simp add: mod_Suc)

lemma col_name_loop_Suc_acc:
  "col_name_loop (Suc m) acc = col_name_loop (m div 26) (char_of (65 + m mod 26) # acc)"
  by (simp only: col_name_loop.simps Let_def col_letter_Suc diff_Suc_1)

declare col_name_loop.simps(2) [simp del]

lemma col_name_loop_acc:
  "col_name_loop n acc = col_name_loop n [] @ acc"
proof (induction n arbitrary: acc rule: less_induct)
  case (less n)
  show ?case
  proof (cases n)
    case 0
    then show ?thesis by simp
  next
    case (Suc m)
    let ?q = "m div 26" and ?c = "char_of (65 + m mod 26) :: char"
    have q: "?q < n" using Suc by simp
    have "col_name_loop ?q (?c # acc) = col_name_loop ?q [] @ ?c # acc"
      by (rule less.IH [OF q])
    moreover have "col_name_loop ?q [?c] = col_name_loop ?q [] @ [?c]"
      by (rule less.IH [OF q])
    ultimately show ?thesis
      using Suc by (simp add: col_name_loop_Suc_acc)
  qed
qed

lemma col_name_loop_Suc:
  "col_name_loop (Suc m) [] = col_name_loop (m div 26) [] @ [char_of (65 + m mod 26)]"
  by (simp add: col_name_loop_Suc_acc col_name_loop_acc [of _ "[_]"])

lemma col_name_value_snoc:
  "col_name_value (xs @ [c]) = col_name_value xs * 26 + (of_char c - 64)"
  by (simp add: col_name_value_def)

lemma col_name_value_loop:
  "col_name_value (col_name_loop n []) = n"
proof (induction n rule: less_induct)
  case (less n)
  show ?case
  proof (cases n)
    case 0
    then show ?thesis by (simp add: col_name_value_def)
  next
    case (Suc m)
    have "m div 26 < n" using Suc by simp
    then have "col_name_value (col_name_loop (m div 26) []) = m div 26" by (rule less.IH)
    moreover have "of_char (char_of (65 + m mod 26) :: char) = 65 + m mod (26::nat)"
      by (rule of_char_char_of_small) simp
    ultimately show ?thesis
      using Suc by (simp add: col_name_loop_Suc col_name_value_snoc)
  qed
qed

lemma col_name_loop_upper:
  "list_all is_upper (col_name_loop n [])"
proof (induction n rule: less_induct)
  case (less n)
  show ?case
  proof (cases n)
    case 0
    then show ?thesis by simp
  next
    case (Suc m)
    have "m div 26 < n" using Suc by simp
    moreover have "of_char (char_of (65 + m mod 26) :: char) = 65 + m mod (26::nat)"
      by (rule of_char_char_of_small) simp
    ultimately show ?thesis
      using Suc less.IH by (simp add: col_name_loop_Suc is_upper_def)
  qed
qed

lemma col_name_loop_nonempty:
  "0 < n \<Longrightarrow> col_name_loop n [] \<noteq> []"
  by (cases n) (simp_all add: col_name_loop_Suc)

lemma xl_name_to_col_xl_col_to_name:
  "xl_name_to_col (xl_col_to_name c) = Some c"
  by (simp add: xl_name_to_col_def xl_col_to_name_def col_name_loop_upper
      col_name_loop_nonempty col_name_value_loop)

lemma col_name_loop_value:
  "list_all is_upper s \<Longrightarrow> col_name_loop (col_name_value s) [] = s"
proof (induction s rule: rev_induct)
  case Nil
  then show ?case by (simp add: col_name_value_def)
next
  case (snoc ch xs)
  let ?d = "of_char ch - 64 :: nat" and ?v = "col_name_value xs"
  from snoc.prems have up: "list_all is_upper xs" and ch: "is_upper ch"
    by simp_all
  from ch have d: "1 \<le> ?d" "?d \<le> 26"
    unfolding is_upper_def by linarith+
  define k where "k = ?d - 1"
  have k: "k < 26" using d by (simp add: k_def)
  have val: "col_name_value (xs @ [ch]) = Suc (?v * 26 + k)"
    using d by (simp add: col_name_value_snoc k_def)
  have div: "(?v * 26 + k) div 26 = ?v" and md: "(?v * 26 + k) mod 26 = k"
    using k by simp_all
  have "char_of (65 + k) = ch"
    using ch by (simp add: is_upper_def k_def)
  then show ?case
    using snoc.IH [OF up] by (simp only: val col_name_loop_Suc div md)
qed

text \<open>
  Decoding then encoding a column name gives the name back: every name the decoder
  accepts (a non-empty string of capitals) is the name of exactly the column it
  decodes to.
\<close>

lemma xl_col_to_name_xl_name_to_col:
  "xl_name_to_col s = Some c \<Longrightarrow> xl_col_to_name c = s"
proof -
  assume h: "xl_name_to_col s = Some c"
  then have ne: "s \<noteq> []" and up: "list_all is_upper s" and c: "c = col_name_value s - 1"
    by (simp_all add: xl_name_to_col_def split: if_splits)
  have "col_name_value s \<noteq> 0"
  proof
    assume "col_name_value s = 0"
    with col_name_loop_value [OF up] have "s = []" by simp
    with ne show False ..
  qed
  with c have "c + 1 = col_name_value s" by simp
  then show ?thesis using col_name_loop_value [OF up] by (simp add: xl_col_to_name_def)
qed


section \<open>Lemmas: decimal rows and whole references\<close>

lemma digits_value_snoc:
  "digits_value (xs @ [c]) = digits_value xs * 10 + (of_char c - 48)"
  by (simp add: digits_value_def)

lemma nat_to_string_digits:
  "list_all is_digit (nat_to_string n) \<and> nat_to_string n \<noteq> [] \<and>
   digits_value (nat_to_string n) = n"
proof (induction n rule: nat_to_string.induct)
  case (1 n)
  show ?case
  proof (cases "n < 10")
    case True
    then have "of_char (char_of (48 + n) :: char) = 48 + n" by simp
    with True show ?thesis
      by (simp add: nat_to_string.simps [of n] is_digit_def digits_value_def)
  next
    case False
    have "of_char (char_of (48 + n mod 10) :: char) = 48 + n mod 10" by simp
    with False "1.IH" show ?thesis
      by (simp add: nat_to_string.simps [of n] is_digit_def digits_value_snoc)
  qed
qed

lemma string_to_nat_nat_to_string:
  "string_to_nat (nat_to_string n) = Some n"
  using nat_to_string_digits [of n] by (simp add: string_to_nat_def)

lemma digit_not_upper:
  "is_digit c \<Longrightarrow> \<not> is_upper c"
  by (simp add: is_digit_def is_upper_def)

lemma split_letters_digits:
  assumes "list_all is_upper L" and "D \<noteq> []" and "list_all is_digit D"
  shows "takeWhile is_upper (L @ D) = L \<and> dropWhile is_upper (L @ D) = D"
proof -
  from assms(2,3) obtain d D' where D: "D = d # D'" and "is_digit d"
    by (cases D) auto
  then have "\<not> is_upper d" by (simp add: digit_not_upper)
  with assms(1) D show ?thesis
    by (simp add: list_all_iff)
qed

text \<open>A cell reference produced from a row and a column decodes to that row and column.\<close>

lemma xl_cell_to_rowcol_xl_rowcol_to_cell:
  "xl_cell_to_rowcol (xl_rowcol_to_cell row col) = Some (row, col)"
proof -
  have L: "list_all is_upper (xl_col_to_name col)"
    by (simp add: xl_col_to_name_def col_name_loop_upper)
  have D: "nat_to_string (row + 1) \<noteq> []" "list_all is_digit (nat_to_string (row + 1))"
    using nat_to_string_digits [of "row + 1"] by simp_all
  from split_letters_digits [OF L D] show ?thesis
    by (simp add: xl_cell_to_rowcol_def xl_rowcol_to_cell_def Let_def
        xl_name_to_col_xl_col_to_name string_to_nat_nat_to_string)
qed

lemma xl_col_to_name_XFD:
  "xl_name_to_col ''XFD'' = Some 16383 \<and> xl_col_to_name 16383 = ''XFD''"
proof -
  have d: "xl_name_to_col ''XFD'' = Some 16383"
    by (simp add: xl_name_to_col_def col_name_value_def is_upper_def)
  show ?thesis using d xl_col_to_name_xl_name_to_col [OF d] by simp
qed

section \<open>Lemmas: ranges\<close>

lemma colon_not_in_cell:
  "CHR '':'' \<notin> set (xl_rowcol_to_cell row col)"
proof -
  have "list_all is_upper (xl_col_to_name col)"
    by (simp add: xl_col_to_name_def col_name_loop_upper)
  moreover have "list_all is_digit (nat_to_string (row + 1))"
    using nat_to_string_digits [of "row + 1"] by simp
  ultimately show ?thesis
    by (auto simp: xl_rowcol_to_cell_def list_all_iff is_upper_def is_digit_def)
qed

lemma xl_range_to_rowcols_xl_range:
  "xl_range_to_rowcols (xl_range r1 c1 r2 c2) = Some ((r1, c1), (r2, c2))"
proof -
  have "\<forall>c\<in>set (xl_rowcol_to_cell r1 c1). c \<noteq> CHR '':''"
    using colon_not_in_cell by blast
  then have "takeWhile (\<lambda>c. c \<noteq> CHR '':'') (xl_range r1 c1 r2 c2) = xl_rowcol_to_cell r1 c1 \<and>
      dropWhile (\<lambda>c. c \<noteq> CHR '':'') (xl_range r1 c1 r2 c2) = CHR '':'' # xl_rowcol_to_cell r2 c2"
    by (simp add: xl_range_def)
  then show ?thesis
    by (simp add: xl_range_to_rowcols_def xl_cell_to_rowcol_xl_rowcol_to_cell)
qed

end
