(* ===== verification/Dimension.thy ===== *)
theory Dimension
  imports Writers Cell_Ref
begin

text \<open>
  The dimension calculator and the authoring phase. The worksheet keeps the running
  bounds \<open>dim_rowmin\<close>, \<open>dim_rowmax\<close>, \<open>dim_colmin\<close>, \<open>dim_colmax\<close> (\<open>None\<close> until a
  cell is seen) and the sheet limits \<open>xls_rowmax\<close>, \<open>xls_colmax\<close>
  (\<open>worksheet.py\<close> lines 48--54). The method that checks a coordinate and widens
  the bounds, \<open>_check_dimensions\<close>, is called by the cell writers, which are not in
  \<open>src/\<close>; it is modelled from the specification (sections 4.1, 4.2 and 7): a
  coordinate outside \<open>[0, xls_rowmax) \<times> [0, xls_colmax)\<close> is refused with
  \<open>OutOfRange\<close> and leaves the state as it was, any other widens the bounds.
  \<open>observe_cells\<close> is a run of cell writes whose caller ignores refused coordinates.
  The abstract specification is \<open>bounding_range\<close>, the least range holding a list of
  coordinates; \<open>dimension_ref\<close> is the reference string the specification asks the
  \<open><dimension>\<close> element to carry; the code's \<open>_write_dimension\<close> never computes it
  (it writes \<open>A1\<close>), so it serves as the specification the code is compared with. \<open>authored\<close> is the set of states the authoring
  phase can reach from the constructor by \<open>select\<close> and cell writes.
\<close>

section \<open>Errors and the bounds check\<close>

datatype ws_error = OutOfRange | InvalidConfiguration

type_synonym cell_range = "int \<times> int \<times> int \<times> int"

definition lower_bound :: "int option \<Rightarrow> int \<Rightarrow> int option" where
  "lower_bound cur v = (case cur of None \<Rightarrow> Some v | Some c \<Rightarrow> if v < c then Some v else Some c)"

definition upper_bound :: "int option \<Rightarrow> int \<Rightarrow> int option" where
  "upper_bound cur v = (case cur of None \<Rightarrow> Some v | Some c \<Rightarrow> if c < v then Some v else Some c)"

definition in_sheet :: "worksheet \<Rightarrow> int \<times> int \<Rightarrow> bool" where
  "in_sheet ws cell =
     (case cell of (row, col) \<Rightarrow> 0 \<le> row \<and> row < xls_rowmax ws \<and> 0 \<le> col \<and> col < xls_colmax ws)"

definition check_dimensions :: "int \<Rightarrow> int \<Rightarrow> worksheet \<Rightarrow> ws_error + worksheet" where
  "check_dimensions row col ws =
     (if row < 0 \<or> col < 0 \<or> xls_rowmax ws \<le> row \<or> xls_colmax ws \<le> col then Inl OutOfRange
      else Inr (ws\<lparr>dim_rowmin := lower_bound (dim_rowmin ws) row,
                  dim_rowmax := upper_bound (dim_rowmax ws) row,
                  dim_colmin := lower_bound (dim_colmin ws) col,
                  dim_colmax := upper_bound (dim_colmax ws) col\<rparr>))"

fun observe_cells :: "worksheet \<Rightarrow> (int \<times> int) list \<Rightarrow> worksheet" where
  "observe_cells ws [] = ws"
| "observe_cells ws ((row, col) # cells) =
     observe_cells (case check_dimensions row col ws of Inl _ \<Rightarrow> ws | Inr ws' \<Rightarrow> ws') cells"

section \<open>The abstract range\<close>

text \<open>The four bounds as one value, defined once all four are.\<close>

definition dims :: "worksheet \<Rightarrow> cell_range option" where
  "dims ws =
     (case (dim_rowmin ws, dim_rowmax ws, dim_colmin ws, dim_colmax ws) of
        (Some a, Some b, Some c, Some d) \<Rightarrow> Some (a, b, c, d)
      | _ \<Rightarrow> None)"

definition dims_unset :: "worksheet \<Rightarrow> bool" where
  "dims_unset ws \<longleftrightarrow>
     dim_rowmin ws = None \<and> dim_rowmax ws = None \<and> dim_colmin ws = None \<and> dim_colmax ws = None"

definition range_add :: "cell_range option \<Rightarrow> int \<times> int \<Rightarrow> cell_range option" where
  "range_add r cell =
     (case cell of (row, col) \<Rightarrow>
        Some (case r of None \<Rightarrow> (row, row, col, col)
              | Some (a, b, c, d) \<Rightarrow> (min a row, max b row, min c col, max d col)))"

definition bounding_range :: "(int \<times> int) list \<Rightarrow> cell_range option" where
  "bounding_range cells = foldl range_add None cells"

section \<open>The reference string\<close>

text \<open>
  Section 4.2: \<open>A1\<close> while no cell has been seen, otherwise the two corners
  \<open>TopLeft:BottomRight\<close>.
\<close>

definition dimension_ref :: "worksheet \<Rightarrow> string" where
  "dimension_ref ws =
     (case dims ws of
        None \<Rightarrow> ''A1''
      | Some (a, b, c, d) \<Rightarrow> xl_range (nat a) (nat c) (nat b) (nat d))"

text \<open>The dimension writer the specification describes (sections 4.2 and 4.5).\<close>

definition spec_write_dimension :: "worksheet \<Rightarrow> worksheet" where
  "spec_write_dimension ws = xml_empty_tag ''dimension'' [(''ref'', dimension_ref ws)] ws"

section \<open>The authoring phase\<close>

datatype authoring_op = Select | WriteCell int int

fun author_step :: "authoring_op \<Rightarrow> worksheet \<Rightarrow> ws_error + worksheet" where
  "author_step Select ws = Inr (select ws)"
| "author_step (WriteCell row col) ws = check_dimensions row col ws"

inductive authored :: "worksheet \<Rightarrow> bool" where
  init: "authored worksheet_init"
| step: "authored ws \<Longrightarrow> author_step op ws = Inr ws' \<Longrightarrow> authored ws'"

text \<open>
  What holds in every authored state: the sheet limits of the constructor, and the
  bounds are either all unset or an ordered range inside the sheet.
\<close>

definition sheet_invariant :: "worksheet \<Rightarrow> bool" where
  "sheet_invariant ws \<longleftrightarrow>
     xls_rowmax ws = 1048576 \<and> xls_colmax ws = 16384 \<and>
     (case dims ws of
        None \<Rightarrow> dims_unset ws
      | Some (a, b, c, d) \<Rightarrow> 0 \<le> a \<and> a \<le> b \<and> b < xls_rowmax ws \<and> 0 \<le> c \<and> c \<le> d \<and> d < xls_colmax ws)"

section \<open>Lemmas: the bounds check and the range\<close>

lemma check_dimensions_Inr:
  "check_dimensions row col ws = Inr ws' \<longleftrightarrow>
     in_sheet ws (row, col) \<and>
     ws' = ws\<lparr>dim_rowmin := lower_bound (dim_rowmin ws) row,
              dim_rowmax := upper_bound (dim_rowmax ws) row,
              dim_colmin := lower_bound (dim_colmin ws) col,
              dim_colmax := upper_bound (dim_colmax ws) col\<rparr>"
  by (auto simp: check_dimensions_def in_sheet_def)

lemma check_dimensions_Inl:
  "check_dimensions row col ws = Inl e \<longleftrightarrow> \<not> in_sheet ws (row, col) \<and> e = OutOfRange"
  by (auto simp: check_dimensions_def in_sheet_def)

lemma check_dimensions_frame:
  "check_dimensions row col ws = Inr ws' \<Longrightarrow>
     xls_rowmax ws' = xls_rowmax ws \<and> xls_colmax ws' = xls_colmax ws \<and> fh ws' = fh ws \<and>
     selected ws' = selected ws \<and> hidden ws' = hidden ws"
  by (auto simp: check_dimensions_Inr)

lemma in_sheet_check:
  "check_dimensions row col ws = Inr ws' \<Longrightarrow> in_sheet ws' = in_sheet ws"
  by (auto simp: check_dimensions_Inr in_sheet_def fun_eq_iff)

lemma dims_after_check:
  assumes "check_dimensions row col ws = Inr ws'"
    and "dims_unset ws \<or> dims ws \<noteq> None"
  shows "dims ws' = range_add (dims ws) (row, col)"
  using assms
  by (auto simp: check_dimensions_Inr dims_def dims_unset_def range_add_def lower_bound_def
      upper_bound_def split: option.splits)

lemma dims_set_after_check:
  "check_dimensions row col ws = Inr ws' \<Longrightarrow> dims_unset ws \<or> dims ws \<noteq> None \<Longrightarrow>
     dims ws' \<noteq> None"
  by (simp add: dims_after_check range_add_def)

lemma observe_cells_limits:
  "xls_rowmax (observe_cells ws cells) = xls_rowmax ws \<and>
   xls_colmax (observe_cells ws cells) = xls_colmax ws"
  by (induction ws cells rule: observe_cells.induct)
     (auto simp: check_dimensions_frame split: sum.splits)

lemma observe_cells_dims:
  "dims_unset ws \<or> dims ws \<noteq> None \<Longrightarrow>
     dims (observe_cells ws cells) = foldl range_add (dims ws) (filter (in_sheet ws) cells)"
proof (induction ws cells rule: observe_cells.induct)
  case (1 ws)
  then show ?case by simp
next
  case (2 ws row col cells)
  show ?case
  proof (cases "check_dimensions row col ws")
    case (Inl e)
    then have "\<not> in_sheet ws (row, col)" by (simp add: check_dimensions_Inl)
    moreover have "dims (observe_cells ws cells) =
        foldl range_add (dims ws) (filter (in_sheet ws) cells)"
      using "2.IH" "2.prems" Inl by simp
    ultimately show ?thesis using Inl by simp
  next
    case (Inr ws')
    have d: "dims ws' = range_add (dims ws) (row, col)"
      using dims_after_check [OF Inr "2.prems"] .
    have "dims_unset ws' \<or> dims ws' \<noteq> None"
      using dims_set_after_check [OF Inr "2.prems"] by simp
    with "2.IH" Inr have "dims (observe_cells ws' cells) =
        foldl range_add (dims ws') (filter (in_sheet ws') cells)" by simp
    moreover have "in_sheet ws (row, col)" using Inr by (simp add: check_dimensions_Inr)
    ultimately show ?thesis
      using Inr d in_sheet_check [OF Inr] by simp
  qed
qed

lemma bounding_range_snoc:
  "bounding_range (cells @ [cell]) = range_add (bounding_range cells) cell"
  by (simp add: bounding_range_def)

lemma bounding_range_Min_Max:
  "bounding_range cells =
     (if cells = [] then None
      else Some (Min (fst ` set cells), Max (fst ` set cells),
                 Min (snd ` set cells), Max (snd ` set cells)))"
proof (induction cells rule: rev_induct)
  case Nil
  then show ?case by (simp add: bounding_range_def)
next
  case (snoc cell cells)
  obtain row col where cell: "cell = (row, col)" by (cases cell)
  show ?case
  proof (cases "cells = []")
    case True
    then show ?thesis by (simp add: bounding_range_def range_add_def cell)
  next
    case False
    then have "fst ` set cells \<noteq> {}" "snd ` set cells \<noteq> {}" by simp_all
    with False snoc.IH show ?thesis
      by (simp add: bounding_range_snoc range_add_def cell
          min.commute max.commute)
  qed
qed

lemma worksheet_init_limits:
  "xls_rowmax worksheet_init = 1048576 \<and> xls_colmax worksheet_init = 16384"
  by (simp add: worksheet_init_def)

lemma worksheet_init_dims:
  "dims_unset worksheet_init \<and> dims worksheet_init = None"
  by (simp add: worksheet_init_def dims_unset_def dims_def)

lemma select_frame:
  "dims (select ws) = dims ws \<and> dims_unset (select ws) = dims_unset ws \<and>
   xls_rowmax (select ws) = xls_rowmax ws \<and> xls_colmax (select ws) = xls_colmax ws \<and>
   fh (select ws) = fh ws"
  by (simp add: select_def dims_def dims_unset_def)

lemma sheet_invariant_init:
  "sheet_invariant worksheet_init"
  using worksheet_init_dims by (simp add: sheet_invariant_def worksheet_init_def)

lemma sheet_invariant_dims_cases:
  "sheet_invariant ws \<Longrightarrow> dims_unset ws \<or> dims ws \<noteq> None"
  by (auto simp: sheet_invariant_def split: option.splits)

lemma author_step_invariant:
  assumes "author_step op ws = Inr ws'" and "sheet_invariant ws"
  shows "sheet_invariant ws'"
proof (cases op)
  case Select
  with assms(1) have ws': "ws' = select ws" by simp
  from assms(2) show ?thesis
    unfolding ws' sheet_invariant_def by (simp only: select_frame) (auto split: option.splits)
next
  case (WriteCell row col)
  with assms(1) have chk: "check_dimensions row col ws = Inr ws'" by simp
  then have inside: "in_sheet ws (row, col)" by (simp add: check_dimensions_Inr)
  have d: "dims ws' = range_add (dims ws) (row, col)"
    using dims_after_check [OF chk sheet_invariant_dims_cases [OF assms(2)]] .
  from check_dimensions_frame [OF chk] assms(2) inside show ?thesis
    by (auto simp: sheet_invariant_def d range_add_def in_sheet_def split: option.splits)
qed

lemma authored_limits:
  "authored ws \<Longrightarrow> xls_rowmax ws = 1048576 \<and> xls_colmax ws = 16384"
proof (induction rule: authored.induct)
  case (step ws op ws')
  then show ?case
    by (cases op) (auto simp: select_frame dest: check_dimensions_frame)
qed (simp add: worksheet_init_def)

text \<open>
  C11: in every authored state a cell coordinate is refused with \<open>OutOfRange\<close> exactly
  when the row is outside 0..1048575 or the column outside 0..16383.
\<close>

theorem check_dimensions_boundary:
  "authored ws \<Longrightarrow>
     check_dimensions row col ws = Inl OutOfRange \<longleftrightarrow>
     row < 0 \<or> 1048575 < row \<or> col < 0 \<or> 16383 < col"
  using authored_limits [of ws] by (auto simp: check_dimensions_def)

theorem check_dimensions_boundary_witness:
  "authored worksheet_init \<and>
   check_dimensions 1048576 0 worksheet_init = Inl OutOfRange \<and>
   check_dimensions 0 16384 worksheet_init = Inl OutOfRange \<and>
   check_dimensions 1048575 16383 worksheet_init \<noteq> Inl OutOfRange"
  using check_dimensions_boundary [OF authored.init, of 1048576 0]
    check_dimensions_boundary [OF authored.init, of 0 16384]
    check_dimensions_boundary [OF authored.init, of 1048575 16383]
  by (simp add: authored.init)

text \<open>
  C10: the dimension bounds after any run of cell writes on a fresh worksheet are the
  least range holding the accepted coordinates: unset if none was accepted, otherwise
  the least and greatest row and column among them.
\<close>

theorem observe_cells_least_range:
  "dims (observe_cells worksheet_init cells) =
     (let accepted = filter (in_sheet worksheet_init) cells
      in if accepted = [] then None
         else Some (Min (fst ` set accepted), Max (fst ` set accepted),
                    Min (snd ` set accepted), Max (snd ` set accepted)))"
proof -
  have "dims (observe_cells worksheet_init cells) =
      bounding_range (filter (in_sheet worksheet_init) cells)"
    using observe_cells_dims [of worksheet_init cells] worksheet_init_dims
    by (simp add: bounding_range_def)
  then show ?thesis by (simp add: bounding_range_Min_Max Let_def)
qed

section \<open>The dimension reference\<close>

lemma colon_in_xl_range:
  "CHR '':'' \<in> set (xl_range r1 c1 r2 c2)"
  by (simp add: xl_range_def)

text \<open>
  C12: the code's \<open>_write_dimension\<close> writes what the specification's dimension writer
  writes exactly when the recorded range is unset (\<open>dims ws = None\<close>, i.e. not all four
  bounds are recorded): once a range is recorded, the code still writes \<open>A1\<close>.
\<close>

theorem write_dimension_matches_spec_iff:
  "write_dimension ws = spec_write_dimension ws \<longleftrightarrow> dims ws = None"
proof -
  have "write_dimension ws = spec_write_dimension ws \<longleftrightarrow> dimension_ref ws = ''A1''"
  proof
    assume "write_dimension ws = spec_write_dimension ws"
    then have "fh (write_dimension ws) = fh (spec_write_dimension ws)" by simp
    then show "dimension_ref ws = ''A1''"
      by (simp add: write_dimension_emits spec_write_dimension_def xml_empty_tag_def)
  next
    assume "dimension_ref ws = ''A1''"
    then show "write_dimension ws = spec_write_dimension ws"
      by (simp add: write_dimension_emits spec_write_dimension_def xml_empty_tag_def)
  qed
  also have "\<dots> \<longleftrightarrow> dims ws = None"
  proof (cases "dims ws")
    case None
    then show ?thesis by (simp add: dimension_ref_def)
  next
    case (Some r)
    obtain a b c d where r: "r = (a, b, c, d)" by (cases r)
    have "CHR '':'' \<in> set (dimension_ref ws)"
      using Some r colon_in_xl_range by (simp add: dimension_ref_def)
    then have "dimension_ref ws \<noteq> ''A1''" by auto
    with Some show ?thesis by simp
  qed
  finally show ?thesis .
qed


end
