(* ===== verification/Decimal.thy ===== *)
theory Decimal
  imports Cell_Ref
begin

text \<open>
  Decimal rendering of the numeric settings (specification, section 4.5: "decimal
  values are rendered without superfluous trailing zeros", e.g. \<open>0.7\<close>, \<open>0.75\<close>). The
  formatter writes the integer part with \<open>nat_to_string\<close> and then at most 17
  fractional digits, the precision of a Python float's shortest repr, stopping as soon
  as the remainder is zero. The parser is the reading a consumer applies. The
  round trip holds for every non-negative finite decimal with at most 17 fractional
  digits, which covers every margin the worksheet uses.
\<close>

section \<open>Formatter\<close>

fun fraction_digits :: "nat \<Rightarrow> real \<Rightarrow> string" where
  "fraction_digits 0 x = []"
| "fraction_digits (Suc n) x =
     (if x = 0 then []
      else (let y = 10 * x; d = \<lfloor>y\<rfloor>
            in char_of (48 + nat d) # fraction_digits n (y - of_int d)))"

definition format_decimal :: "real \<Rightarrow> string" where
  "format_decimal x =
     (let i = \<lfloor>x\<rfloor>; f = x - of_int i
      in nat_to_string (nat i) @ (if f = 0 then [] else CHR ''.'' # fraction_digits 17 f))"

section \<open>Parser\<close>

fun fraction_value :: "string \<Rightarrow> real" where
  "fraction_value [] = 0"
| "fraction_value (c # cs) = (of_nat (of_char c - 48) + fraction_value cs) / 10"

definition decimal_value :: "string \<Rightarrow> real" where
  "decimal_value s =
     (let int_part = takeWhile (\<lambda>c. c \<noteq> CHR ''.'') s;
          frac_part = drop (Suc (length int_part)) s
      in of_nat (digits_value int_part) + fraction_value frac_part)"

section \<open>Evaluation\<close>

text \<open>The loop equation for a numeral amount of fuel, so that \<open>simp\<close> evaluates it.\<close>

lemma fraction_digits_pos:
  "0 < n \<Longrightarrow> fraction_digits n x =
     (if x = 0 then []
      else (let y = 10 * x; d = \<lfloor>y\<rfloor>
            in char_of (48 + nat d) # fraction_digits (n - 1) (y - of_int d)))"
  by (cases n) simp_all

lemmas decimal_eval = format_decimal_def decimal_value_def nat_to_string.simps char_of_def
  bit_simps fraction_digits_pos digits_value_def

section \<open>Round trip\<close>

lemma nat_to_string_no_point:
  "CHR ''.'' \<notin> set (nat_to_string n)"
  using nat_to_string_digits [of n] by (auto simp: list_all_iff is_digit_def)

text \<open>
  One step of the fraction loop on a remainder \<open>f\<close> in \<open>[0, 1)\<close> with \<open>k\<close> decimals: the
  digit is in \<open>0..9\<close>, the new remainder is again in \<open>[0, 1)\<close> and has \<open>k - 1\<close>
  decimals.
\<close>

lemma fraction_zero:
  "0 \<le> f \<Longrightarrow> f < 1 \<Longrightarrow> f = of_int m \<Longrightarrow> f = (0::real)"
  by (metis floor_of_int floor_unique of_int_0 add_0 less_eq_real_def)

lemma fraction_step:
  assumes "0 \<le> (f::real)" "f < 1" "f \<noteq> 0" "f * 10 ^ k = of_int m"
  shows "0 \<le> \<lfloor>10 * f\<rfloor> \<and> \<lfloor>10 * f\<rfloor> \<le> 9 \<and>
         0 \<le> 10 * f - of_int \<lfloor>10 * f\<rfloor> \<and> 10 * f - of_int \<lfloor>10 * f\<rfloor> < 1 \<and> 1 \<le> k \<and>
         (10 * f - of_int \<lfloor>10 * f\<rfloor>) * 10 ^ (k - 1) = of_int (m - \<lfloor>10 * f\<rfloor> * 10 ^ (k - 1))"
proof -
  have k1: "1 \<le> k"
  proof (rule ccontr)
    assume "\<not> 1 \<le> k"
    then have "k = 0" by simp
    then have "f = of_int m" using assms(4) by simp
    with assms(1-3) fraction_zero show False by blast
  qed
  have "f * 10 ^ k = 10 * f * 10 ^ (k - 1)"
    using k1 by (simp add: power_eq_if)
  then have "(10 * f - of_int \<lfloor>10 * f\<rfloor>) * 10 ^ (k - 1) = of_int (m - \<lfloor>10 * f\<rfloor> * 10 ^ (k - 1))"
    using assms(4) by (simp add: algebra_simps)
  moreover have "0 \<le> \<lfloor>10 * f\<rfloor>" "\<lfloor>10 * f\<rfloor> \<le> 9"
    using assms(1,2) by (simp_all add: floor_le_iff)
  moreover have "10 * f - of_int \<lfloor>10 * f\<rfloor> < 1" by linarith
  ultimately show ?thesis using k1 by simp
qed

text \<open>
  The fraction loop on a remainder with a finite expansion of \<open>k\<close> digits: with
  enough fuel it writes digits whose value is the remainder, and the last digit is
  not zero.
\<close>

lemma fraction_digits_exact:
  assumes "0 \<le> f" "f < 1" "k \<le> n" "f * 10 ^ k = of_int m"
  shows "fraction_value (fraction_digits n f) = f \<and>
         (fraction_digits n f = [] \<longleftrightarrow> f = 0) \<and>
         (fraction_digits n f \<noteq> [] \<longrightarrow> last (fraction_digits n f) \<noteq> CHR ''0'')"
  using assms
proof (induction n arbitrary: f k m)
  case 0
  then have "f = 0" using fraction_zero [of f m] by simp
  then show ?case by simp
next
  case (Suc n)
  show ?case
  proof (cases "f = 0")
    case True
    then show ?thesis by simp
  next
    case False
    define y where "y = 10 * f"
    define d where "d = \<lfloor>y\<rfloor>"
    define r where "r = y - of_int d"
    from fraction_step [OF Suc.prems(1,2) False Suc.prems(4)]
    have d0: "0 \<le> d" and d9: "d \<le> 9" and r0: "0 \<le> r" and r1: "r < 1"
      and rk: "r * 10 ^ (k - 1) = of_int (m - d * 10 ^ (k - 1))"
      unfolding r_def d_def y_def by blast+
    have IH: "fraction_value (fraction_digits n r) = r \<and>
              (fraction_digits n r = [] \<longleftrightarrow> r = 0) \<and>
              (fraction_digits n r \<noteq> [] \<longrightarrow> last (fraction_digits n r) \<noteq> CHR ''0'')"
      using Suc.IH [OF r0 r1 _ rk] Suc.prems(3) by simp
    have step: "fraction_digits (Suc n) f = char_of (48 + nat d) # fraction_digits n r"
      using False by (simp add: y_def d_def r_def Let_def)
    have val: "of_nat (of_char (char_of (48 + nat d) :: char) - 48 :: nat) = (of_int d :: real)"
      using d0 d9 by simp
    have "d \<noteq> 0" if "r = 0"
      using that False by (simp add: r_def y_def d_def)
    moreover have "char_of (48 + nat d) \<noteq> CHR ''0''" if "d \<noteq> 0"
    proof
      assume "char_of (48 + nat d) = CHR ''0''"
      then have "of_char (char_of (48 + nat d) :: char) = (of_char CHR ''0'' :: nat)" by simp
      with d9 that d0 show False by simp
    qed
    ultimately have last_ok: "last (fraction_digits (Suc n) f) \<noteq> CHR ''0''"
      unfolding step using IH by (cases "r = 0") auto
    show ?thesis
      unfolding step using IH val last_ok [unfolded step] False by (simp add: r_def y_def)
  qed
qed

text \<open>
  Every non-negative decimal with at most 17 fractional digits is written without a
  trailing zero after the point and reads back as itself.
\<close>

theorem format_decimal_roundtrip:
  assumes "0 \<le> m" and "k \<le> 17"
  shows "decimal_value (format_decimal (of_int m / 10 ^ k)) = of_int m / 10 ^ k \<and>
         (CHR ''.'' \<in> set (format_decimal (of_int m / 10 ^ k)) \<longrightarrow>
            last (format_decimal (of_int m / 10 ^ k)) \<noteq> CHR ''0'')"
proof -
  define x :: real where "x = of_int m / 10 ^ k"
  define i where "i = \<lfloor>x\<rfloor>"
  define f where "f = x - of_int i"
  have i0: "0 \<le> i" using assms(1) by (simp add: i_def x_def)
  have f0: "0 \<le> f" and f1: "f < 1" by (simp_all add: f_def i_def) linarith
  have fk: "f * 10 ^ k = of_int (m - i * 10 ^ k)"
    by (simp add: f_def x_def algebra_simps)
  note ex = fraction_digits_exact [OF f0 f1 assms(2) fk]
  have fmt: "format_decimal x =
      nat_to_string (nat i) @ (if f = 0 then [] else CHR ''.'' # fraction_digits 17 f)"
    by (simp add: format_decimal_def i_def f_def Let_def)
  have int_part: "takeWhile (\<lambda>c. c \<noteq> CHR ''.'') (format_decimal x) = nat_to_string (nat i)"
    using nat_to_string_no_point [of "nat i"]
    by (cases "f = 0") (auto simp: fmt takeWhile_eq_all_conv)
  have frac_part: "drop (Suc (length (nat_to_string (nat i)))) (format_decimal x) =
      (if f = 0 then [] else fraction_digits 17 f)"
    by (simp add: fmt)
  have "digits_value (nat_to_string (nat i)) = nat i"
    using nat_to_string_digits by blast
  then have "decimal_value (format_decimal x) =
      of_int i + fraction_value (if f = 0 then [] else fraction_digits 17 f)"
    using i0 unfolding decimal_value_def Let_def int_part frac_part by simp
  also have "\<dots> = x"
    using ex by (simp add: f_def)
  finally have v: "decimal_value (format_decimal x) = x" .
  have "last (format_decimal x) \<noteq> CHR ''0''" if "CHR ''.'' \<in> set (format_decimal x)"
  proof -
    have "f \<noteq> 0" using that nat_to_string_no_point [of "nat i"] by (auto simp: fmt)
    with ex show ?thesis by (simp add: fmt)
  qed
  with v show ?thesis by (simp add: x_def)
qed

end
