(* ===== verification/Page_Settings.thy ===== *)
theory Page_Settings
  imports Dimension Decimal
begin

text \<open>
  The numeric page settings of the worksheet (the six margins and the default row
  height) and the two writers that should report them. Section 4.5(b) of the
  specification asks a writer to format each attribute value from the state, decimals
  without trailing zeros; \<open>spec_write_page_margins\<close> and
  \<open>spec_write_sheet_format_pr\<close> are those writers. The code's
  \<open>_write_page_margins\<close> and \<open>_write_sheet_format_pr\<close> (\<open>worksheet.py\<close>, lines
  300--330) write string literals instead. The lemmas show when the two agree:
  exactly when the state's values format to the literals, which holds in every
  authored state because no operation of the code changes them.
\<close>

section \<open>Writers that format the state\<close>

definition spec_write_sheet_format_pr :: "worksheet \<Rightarrow> worksheet" where
  "spec_write_sheet_format_pr ws =
     xml_empty_tag ''sheetFormatPr''
       [(''defaultRowHeight'', format_decimal (of_int (default_row_height ws)))] ws"

definition spec_write_page_margins :: "worksheet \<Rightarrow> worksheet" where
  "spec_write_page_margins ws =
     xml_empty_tag ''pageMargins''
       [(''left'', format_decimal (margin_left ws)), (''right'', format_decimal (margin_right ws)),
        (''top'', format_decimal (margin_top ws)), (''bottom'', format_decimal (margin_bottom ws)),
        (''header'', format_decimal (margin_header ws)),
        (''footer'', format_decimal (margin_footer ws))] ws"

text \<open>The settings the two writers report, in the order \<open>pageMargins\<close> lists them.\<close>

definition margins :: "worksheet \<Rightarrow> real list" where
  "margins ws = [margin_left ws, margin_right ws, margin_top ws, margin_bottom ws,
                 margin_header ws, margin_footer ws]"

section \<open>Authoring leaves the page settings alone\<close>

lemma author_step_page_settings:
  "author_step op ws = Inr ws' \<Longrightarrow>
     margins ws' = margins ws \<and> default_row_height ws' = default_row_height ws"
  by (cases op) (auto simp: margins_def select_def check_dimensions_Inr)

lemma authored_page_settings:
  "authored ws \<Longrightarrow>
     margins ws = [0.7, 0.7, 0.75, 0.75, 0.3, 0.3] \<and> default_row_height ws = 15"
proof (induction rule: authored.induct)
  case init
  show ?case by (simp add: margins_def worksheet_init_def)
next
  case (step ws op ws')
  then show ?case using author_step_page_settings [OF step.hyps(2)] by simp
qed

lemma format_default_settings:
  "map format_decimal [0.7, 0.7, 0.75, 0.75, 0.3, 0.3] =
     [''0.7'', ''0.7'', ''0.75'', ''0.75'', ''0.3'', ''0.3''] \<and>
   format_decimal (of_int 15) = ''15''"
  by (simp add: decimal_eval)

section \<open>Properties\<close>

text \<open>
  C16: in every authored state the code's \<open>pageMargins\<close> and \<open>sheetFormatPr\<close> writers
  emit exactly what writers formatting the state's margins and default row height
  emit.
\<close>

theorem authored_writers_refine_spec:
  "authored ws \<Longrightarrow>
     write_page_margins ws = spec_write_page_margins ws \<and>
     write_sheet_format_pr ws = spec_write_sheet_format_pr ws"
proof -
  assume "authored ws"
  then have m: "margins ws = [0.7, 0.7, 0.75, 0.75, 0.3, 0.3]" and h: "default_row_height ws = 15"
    using authored_page_settings by blast+
  have "map format_decimal (margins ws) = [''0.7'', ''0.7'', ''0.75'', ''0.75'', ''0.3'', ''0.3'']"
    using format_default_settings by (simp only: m)
  then show ?thesis
    using h format_default_settings
    by (simp add: margins_def write_page_margins_emits write_sheet_format_pr_emits
        spec_write_page_margins_def spec_write_sheet_format_pr_def xml_empty_tag_def)
qed

theorem authored_writers_refine_spec_witness:
  "authored worksheet_init \<and>
   write_page_margins worksheet_init = spec_write_page_margins worksheet_init \<and>
   write_sheet_format_pr worksheet_init = spec_write_sheet_format_pr worksheet_init"
  using authored_writers_refine_spec [OF authored.init] authored.init by blast

text \<open>
  C17: the code's \<open>_write_page_margins\<close> agrees with the state-formatting writer
  exactly when the six margins of the state format to the six literals it writes;
  any other margin value is silently replaced by the default.
\<close>

theorem page_margins_agree_iff:
  "write_page_margins ws = spec_write_page_margins ws \<longleftrightarrow>
     map format_decimal (margins ws) = [''0.7'', ''0.7'', ''0.75'', ''0.75'', ''0.3'', ''0.3'']"
  by (auto simp: margins_def write_page_margins_emits spec_write_page_margins_def
      xml_empty_tag_def)


end
