(* ===== verification/Sheet_Limits.thy ===== *)
theory Sheet_Limits
  imports Dimension
begin

text \<open>
  Progress of the authoring phase under the sheet limits (\<open>xls_rowmax = 1048576\<close>,
  \<open>xls_colmax = 16384\<close>, set by \<open>Worksheet.__init__\<close>): no authored state is stuck,
  since every in-sheet cell write is accepted by the bounds check, and the next state
  is again authored and its recorded range covers the cell.
\<close>

section \<open>Authored states\<close>

lemma authored_invariant:
  "authored ws \<Longrightarrow> sheet_invariant ws"
  by (induction rule: authored.induct) (auto intro: sheet_invariant_init author_step_invariant)

section \<open>Properties\<close>

text \<open>
  C18: no authored state is stuck. A write of any cell inside the sheet is accepted by
  the bounds check, leads to another authored state, and that state's recorded range
  covers the cell.
\<close>

theorem authored_write_progress:
  assumes "authored ws" and "0 \<le> row" and "row < 1048576" and "0 \<le> col" and "col < 16384"
  shows "\<exists>ws'. author_step (WriteCell row col) ws = Inr ws' \<and> authored ws' \<and>
           (case dims ws' of None \<Rightarrow> False
            | Some (a, b, c, d) \<Rightarrow> a \<le> row \<and> row \<le> b \<and> c \<le> col \<and> col \<le> d)"
proof -
  have inside: "in_sheet ws (row, col)"
    using assms authored_limits [OF assms(1)] by (simp add: in_sheet_def)
  then obtain ws' where chk: "check_dimensions row col ws = Inr ws'"
    by (simp add: check_dimensions_Inr)
  have "dims ws' = range_add (dims ws) (row, col)"
    using dims_after_check [OF chk sheet_invariant_dims_cases [OF authored_invariant [OF assms(1)]]] .
  then have "case dims ws' of None \<Rightarrow> False
      | Some (a, b, c, d) \<Rightarrow> a \<le> row \<and> row \<le> b \<and> c \<le> col \<and> col \<le> d"
    by (auto simp: range_add_def split: option.split)
  moreover have "authored ws'"
    using authored.step [OF assms(1), of "WriteCell row col"] chk by simp
  ultimately show ?thesis using chk by auto
qed

theorem authored_write_progress_witness:
  "authored worksheet_init \<and> (0::int) \<le> 1048575 \<and> (1048575::int) < 1048576 \<and>
   (0::int) \<le> 16383 \<and> (16383::int) < 16384 \<and>
   (\<exists>ws'. author_step (WriteCell 1048575 16383) worksheet_init = Inr ws' \<and> authored ws' \<and>
      (case dims ws' of None \<Rightarrow> False
       | Some (a, b, c, d) \<Rightarrow> a \<le> 1048575 \<and> 1048575 \<le> b \<and> c \<le> 16383 \<and> 16383 \<le> d))"
  using authored_write_progress [OF authored.init, of 1048575 16383] authored.init by simp

end
