(* ===== verification/Spec2Isabelle.thy ===== *)
theory Spec2Isabelle
  imports Assembler Page_Settings Sheet_Limits
begin

text \<open>
  \<^bold>\<open>A verification development of the XlsxWriter worksheet serializer\<close>
  (\<open>src/xlsxwriter/worksheet.py\<close>, class \<open>Worksheet\<close>).

  \<^bold>\<open>The program.\<close> \<open>Worksheet\<close> holds every sheet-level setting and is a subclass of
  the markup emitter \<open>XMLwriter\<close>. Its constructor sets about a hundred attributes;
  the public method \<open>select()\<close> marks the sheet selected and not hidden;
  \<open>_assemble_xml_file()\<close> writes the worksheet part: the XML declaration, the root
  \<open><worksheet>\<close> element (\<open>_write_worksheet\<close>), then \<open>_write_dimension\<close>,
  \<open>_write_sheet_views\<close> (with \<open>_write_sheet_view\<close>), \<open>_write_sheet_format_pr\<close>,
  \<open>_write_sheet_data\<close>, \<open>_write_page_margins\<close>, and the root end tag. Every writer
  appends through the emitter's four operations. The emitter (\<open>xmlwriter.py\<close>), the
  cell-reference utility (\<open>utility.py\<close>) and the cell writers that call the bounds check
  are parts of the repository outside \<open>src/\<close>; they are modelled from the
  specification and marked so in the manifest.

  \<^bold>\<open>The theories.\<close>
  \<^item> \<open>Prelude\<close>: the attribute type, the rule collection \<open>emit_simps\<close> (what each
    emitter operation and writer appends), generic list and character lemmas.
  \<^item> \<open>XML_Writer\<close> (emitter, specification-modelled): the event type, the buffer
    record \<open>xmlwriter\<close> with \<open>xml_declaration\<close>, \<open>xml_start_tag\<close>, \<open>xml_end_tag\<close>,
    \<open>xml_empty_tag\<close>; attribute escaping \<open>escape_attributes\<close> (the chain of
    \<open>str.replace\<close> calls) and its decoder; \<open>render\<close>, the bytes of an event stream;
    the checks \<open>nest\<close>, \<open>balanced\<close>, \<open>well_formed_doc\<close>, \<open>root_children\<close>,
    \<open>element_attributes\<close>. Lemmas: escaping equals a per-character map, decodes back
    and never yields \<open><\<close>, \<open>>\<close> or a quote; nesting composes over
    concatenation; a sequence of elements under one root is a well-formed document whose
    root children are their names (\<open>doc_of_elements\<close>).
  \<^item> \<open>Cell_Ref\<close> (utility, specification-modelled): \<open>xl_col_to_name\<close> as its
    \<open>while\<close> loop (\<open>col_name_loop\<close>, structural recursion on \<open>0\<close>/\<open>Suc\<close>),
    \<open>xl_rowcol_to_cell\<close>, \<open>xl_range\<close>, and the decoders (\<open>xl_name_to_col\<close>,
    \<open>xl_cell_to_rowcol\<close>, \<open>xl_range_to_rowcols\<close>). Lemmas: both round trips of column
    names, the round trips of cell references and of ranges.
  \<^item> \<open>Worksheet\<close> (code): the record \<open>worksheet\<close>, extending \<open>xmlwriter\<close> as the class
    extends \<open>XMLwriter\<close>, with the constructor's attributes in its order;
    \<open>worksheet_init\<close> (\<open>__init__\<close>, lines 23--177) and \<open>select\<close> (lines 181--200),
    with C5.
  \<^item> \<open>Writers\<close> (code): \<open>worksheet_attributes\<close> and \<open>write_worksheet\<close> (lines
    241--269), \<open>write_dimension\<close>, \<open>write_sheet_views\<close>, \<open>write_sheet_view\<close>,
    \<open>write_sheet_format_pr\<close>, \<open>write_sheet_data\<close>, \<open>write_page_margins\<close> (lines
    271--330), each with an equation giving exactly what it appends; the
    specification's namespace selector (\<open>base_attributes\<close>, \<open>has_extension\<close>,
    \<open>ignorable_declared\<close>), with C6 and C15. Both are about the version-2010 branch of
    the attribute builder, which the reset on line 259 makes unreachable from
    \<open>_write_worksheet\<close> (C7).
  \<^item> \<open>Assembler\<close> (code and design): \<open>assemble_xml_file\<close> (lines 208--233); the
    specification's table-driven assembler \<open>assemble_by_table\<close> over
    \<open>section_entry\<close> rows (name, inclusion predicate, writer) and the writer contract
    \<open>section_ok\<close>; the schema order \<open>ct_worksheet_order\<close> of \<open>CT_Worksheet\<close>. The code
    refines the design (C3), and the design yields a well-formed document with the
    included sections in table order for any table of contract-keeping writers (C4).
  \<^item> \<open>Dimension\<close> (specification-modelled, on the code's fields \<open>dim_*\<close> and
    \<open>xls_rowmax\<close>, \<open>xls_colmax\<close>): the bounds check \<open>check_dimensions\<close> with its
    \<open>OutOfRange\<close> error, runs of cell writes \<open>observe_cells\<close>, the abstract
    \<open>bounding_range\<close>, and the authoring phase as an inductive reachability predicate
    \<open>authored\<close> over \<open>author_step\<close>. \<open>dimension_ref\<close> and \<open>spec_write_dimension\<close> are
    the specification's dimension writer (sections 4.2, 4.5); the code's
    \<open>_write_dimension\<close> never computes that reference, so they are the specification
    the code is compared with, not a model of code. Lemmas: the running bounds are
    exactly the least range of the accepted coordinates (C10), the boundary of the
    sheet (C11), and the code's dimension writer agrees with the specification's
    exactly while the recorded range is unset (C12).
  \<^item> \<open>Sheet_Limits\<close>: the authoring phase never gets stuck: every in-sheet cell write
    is accepted, leads to an authored state, and is covered by the new range (C18).
  \<^item> \<open>Decimal\<close> (specification convention, section 4.5(b)): \<open>format_decimal\<close>, the
    integer part and at most 17 fractional digits (the precision of a Python float's
    shortest repr, the fuel of \<open>fraction_digits\<close>) stopping at a zero remainder, and
    the reading \<open>decimal_value\<close>. Every non-negative decimal with at most 17
    fractional digits is written without a trailing zero and reads back as itself
    (\<open>format_decimal_roundtrip\<close>, by induction on the fuel over the step lemma
    \<open>fraction_step\<close>).
  \<^item> \<open>Page_Settings\<close>: writers that format the state's margins and default row
    height, as section 4.5 asks, compared with the code's \<open>_write_page_margins\<close> and
    \<open>_write_sheet_format_pr\<close> (lines 300--330). No authoring step changes these
    settings (rule induction over \<open>authored\<close>), so in every authored state the code's
    literals are what the formatting writers write for the constructor's defaults
    (C16); in general the margins writer agrees exactly when the margins format to
    its literals (C17).
  \<^item> This theory: the properties of the whole document one assembly writes (C1, C2,
    C7--C9, C14) and the frame of assembly (C13).

  \<^bold>\<open>Modelling choices.\<close> Python integers are \<open>int\<close> (0/1 flags included), \<open>None\<close> is
  \<open>option\<close>, strings are \<open>string\<close>, the margin floats are \<open>real\<close> (no code reads
  them; \<open>Page_Settings\<close> formats them as the specification asks).
  Mutation of \<open>self\<close> is state passing of the \<open>worksheet\<close> record; the output
  file is the event list \<open>fh\<close>, and \<open>render\<close> gives its bytes. \<open>XMLwriter\<close>'s
  constructor sets its file handle to \<open>None\<close> until a file is opened; the model
  starts from the empty buffer, the content of a freshly opened file. Errors are the
  \<open>Inl\<close> side of \<open>ws_error + worksheet\<close>. There is no unbounded loop:
  the column loop recurses on a strictly smaller number and the assembler is
  straight-line code. The one fuelled loop is the fraction loop of
  \<open>format_decimal\<close>, with 17 digits: enough for every decimal of at most 17
  fractional digits, which the round-trip theorem states, and for every margin value
  the code uses. Column indices of \<open>Cell_Ref\<close> are \<open>nat\<close>: the bounds check admits
  only non-negative coordinates before a reference is formed.

  \<^bold>\<open>Findings.\<close> \<open>_write_worksheet\<close> sets \<open>excel_version\<close> to 2007 before it tests
  it, so the Excel 2010 namespaces are never written (C7) and assembly mutates the
  state (C13); \<open>_write_dimension\<close> always writes \<open>A1\<close> whatever cells were written
  (C12); \<open>_write_sheet_view\<close> writes \<open>tabSelected="1"\<close> also for an unselected sheet
  and \<open>_write_page_margins\<close> writes the default margins whatever the margin fields
  hold, so the whole document is the same for every state (C9, C14) and agrees with a
  writer formatting the margins only while they hold the defaults (C17).

  \<^bold>\<open>Not modelled.\<close> The contents of the attributes holding objects of other modules
  (formats, charts, images, tables, comments, hyperlinks, validations, conditional
  formats, the size and format dictionaries): they are fields over the opaque
  \<open>py_object\<close>, set empty by the constructor and read by no code of
  \<open>worksheet.py\<close>. File handles, buffering and zip packaging are outside the model:
  the buffer is the list of events written. Concurrency (section 5 of the
  specification) has no counterpart in this single-threaded code. No operation of the
  code sets \<open>hidden\<close> (there is no \<open>hide()\<close>), so the specification's "a selected
  sheet is never hidden" is shown for \<open>select\<close> itself (C5), not as an invariant of
  reachable states, where it would hold whatever \<open>select\<close> did.

  \<^bold>\<open>Further work.\<close> Setters for the remaining view and page-setup settings with
  \<open>InvalidConfiguration\<close> (section 3: a negative margin; the code has none, so they
  would be modelled from the specification); the optional sections of the full schema
  as further table rows with their inclusion predicates.
\<close>

section \<open>The document of one assembly\<close>

lemma core_included_sections:
  "included_sections core_sections ws =
     [''dimension'', ''sheetViews'', ''sheetFormatPr'', ''sheetData'', ''pageMargins'']"
  by (simp add: included_sections_def core_sections_def)

lemma written_doc_core:
  "well_formed_doc (written_doc ws) \<and>
   root_children (written_doc ws) = included_sections core_sections (ws\<lparr>excel_version := 2007\<rparr>) \<and>
   root_attributes (written_doc ws) = worksheet_attributes 2007"
proof -
  obtain doc where app: "fh (assemble_by_table core_sections ws) = fh ws @ doc"
    and props: "well_formed_doc doc"
      "root_children doc = included_sections core_sections (ws\<lparr>excel_version := 2007\<rparr>)"
      "root_attributes doc = worksheet_attributes 2007"
    using assemble_by_table_document_aux [OF core_sections_ok, of ws] by blast
  have "written_doc ws = doc"
    using app by (simp add: written_doc_def assemble_xml_file_by_table)
  with props show ?thesis by simp
qed

text \<open>
  C1: one assembly writes a well-formed document (the declaration, one root element,
  every element closed in order, no attribute twice) whose top-level elements are
  exactly dimension, sheetViews, sheetFormatPr, sheetData and pageMargins, in this
  order.
\<close>

theorem written_doc_structure:
  "well_formed_doc (written_doc ws) \<and>
   root_children (written_doc ws) =
     [''dimension'', ''sheetViews'', ''sheetFormatPr'', ''sheetData'', ''pageMargins'']"
  using written_doc_core [of ws] by (simp add: core_included_sections)

text \<open>
  C2: the top-level elements of the written document follow the order the
  \<open>CT_Worksheet\<close> schema fixes, and none appears twice.
\<close>

theorem written_doc_schema_ordered:
  "schema_ordered (root_children (written_doc ws)) \<and> distinct (root_children (written_doc ws))"
proof -
  have "schema_ordered (map fst core_sections)"
    by (simp add: schema_ordered_def core_sections_def ct_worksheet_order_def)
  then have "schema_ordered (included_sections core_sections (ws\<lparr>excel_version := 2007\<rparr>))"
    by (rule schema_ordered_filter)
  then show ?thesis
    using written_doc_core [of ws] schema_ordered_distinct by simp
qed

text \<open>
  C7: the root element of the written document carries the base namespace pair and no
  extension attribute, for every state, also one whose \<open>excel_version\<close> is 2010:
  \<open>_write_worksheet\<close> resets the version before it tests it.
\<close>

theorem written_root_never_extended:
  "root_attributes (written_doc ws) = base_attributes \<and>
   \<not> has_extension (root_attributes (written_doc ws))"
  using written_doc_core [of ws]
  by (simp add: worksheet_attributes_def base_attributes_def has_extension_def
      extension_attribute_names_def Let_def)

text \<open>
  C8: the written document has exactly one pageMargins element, and its attributes
  are the six margins in the order left, right, top, bottom, header, footer.
\<close>

theorem written_page_margins:
  "map (map fst) (element_attributes ''pageMargins'' (written_doc ws)) =
     [[''left'', ''right'', ''top'', ''bottom'', ''header'', ''footer'']]"
  by (simp add: written_doc_events)

text \<open>
  C9: the bytes one assembly writes, for every worksheet state: the literal defaults
  of section 6 of the specification (dimension \<open>A1\<close>, \<open>tabSelected="1"\<close>,
  \<open>workbookViewId="0"\<close>, \<open>defaultRowHeight="15"\<close>, the six margins without trailing
  zeros).
\<close>

theorem written_doc_text:
  \<open>render (written_doc ws) =
     ''<?xml version="1.0" encoding="UTF-8" standalone="yes"?>'' @ [CHR 0x0A] @
     ''<worksheet xmlns="http://schemas.openxmlformats.org/spreadsheetml/2006/main" xmlns:r="http://schemas.openxmlformats.org/officeDocument/2006/relationships">'' @
     ''<dimension ref="A1"/>'' @
     ''<sheetViews><sheetView tabSelected="1" workbookViewId="0"/></sheetViews>'' @
     ''<sheetFormatPr defaultRowHeight="15"/>'' @
     ''<sheetData/>'' @
     ''<pageMargins left="0.7" right="0.7" top="0.75" bottom="0.75" header="0.3" footer="0.3"/>'' @
     ''</worksheet>''\<close>
  by (simp add: written_doc_events worksheet_attributes_def escape_attributes_def
      xml_special_def xml_decl_text_def)

text \<open>
  C13: assembly keeps everything already in the buffer and appends the written
  document after it; it sets \<open>excel_version\<close> to 2007, and every other attribute of
  the worksheet is left as it was.
\<close>

theorem assemble_frame:
  "fh (assemble_xml_file ws) = fh ws @ written_doc ws \<and>
   (assemble_xml_file ws)\<lparr>fh := fh ws, excel_version := excel_version ws\<rparr> = ws \<and>
   excel_version (assemble_xml_file ws) = 2007"
  by (simp add: assemble_xml_file_def written_doc_def emit_simps)

text \<open>
  C14: the written document does not depend on the worksheet state: two states, however
  they differ, give the same document.
\<close>

theorem written_doc_state_independent:
  "written_doc ws = written_doc ws'"
  by (simp add: written_doc_events)

end
